theory Spec2Isabelle
  imports Complex_Main
begin

section \<open>Scalars, vectors and errors\<close>

text \<open>
  The module \<open>Render/renderingmesh.py\<close> computes with Python floats and with the vector
  types of the host application.  Floats are idealised as \<^typ>\<open>real\<close>: \<open>/ 1000\<close> and
  \<open>* 0.001\<close> are exact, \<open>1e-5\<close> is \<open>1 / 100000\<close>, and rounding, infinities and NaN are
  outside the model.  The errors are the exceptions the module can raise: \<open>ValueError\<close>
  (the invalid-argument error of the specification), Python's \<open>ZeroDivisionError\<close>,
  \<open>AttributeError\<close> and \<open>AssertionError\<close>, and the error of the host application.
\<close>

datatype error =
    ValueError
  | ZeroDivisionError
  | AttributeError
  | AssertionError
  | FreeCADError

text \<open>
  Modelled from the spec: the vector types of the host application, which the
  specification lists among the external primitives: vectors of three and of two
  coordinates with their sum, difference, quotient by a scalar, dot product and length.
  A point of a mesh is its position vector.
\<close>

datatype Vector = Vector (vx: real) (vy: real) (vz: real)

datatype Vector2d = Vector2d (ux: real) (uy: real)

definition vadd :: "Vector \<Rightarrow> Vector \<Rightarrow> Vector" where
  "vadd a b = Vector (vx a + vx b) (vy a + vy b) (vz a + vz b)"

definition vsub :: "Vector \<Rightarrow> Vector \<Rightarrow> Vector" where
  "vsub a b = Vector (vx a - vx b) (vy a - vy b) (vz a - vz b)"

text \<open>\<open>v / s\<close> for a scalar \<open>s\<close>; every call site divides by a non-zero number.\<close>

definition vdiv :: "Vector \<Rightarrow> real \<Rightarrow> Vector" where
  "vdiv v s = Vector (vx v / s) (vy v / s) (vz v / s)"

definition vdot :: "Vector \<Rightarrow> Vector \<Rightarrow> real" where
  "vdot a b = vx a * vx b + vy a * vy b + vz a * vz b"

definition vlength :: "Vector \<Rightarrow> real" where
  "vlength v = sqrt (vx v * vx v + vy v * vy v + vz v * vz v)"

text \<open>
  Modelled from the spec: \<open>Vector.normalize()\<close> of the host application.  Section 7
  of the specification names a zero-length vector met by a normalisation as the
  degenerate case the source leaves unguarded; the host raises its own error there.
\<close>

definition normalize_v :: "Vector \<Rightarrow> error + Vector" where
  "normalize_v v = (if vlength v = 0 then Inl FreeCADError else Inr (vdiv v (vlength v)))"

text \<open>\<open>Vector2d * float\<close>.\<close>

definition uv_scale :: "Vector2d \<Rightarrow> real \<Rightarrow> Vector2d" where
  "uv_scale u s = Vector2d (ux u * s) (uy u * s)"

text \<open>\<open>math.hypot\<close>, \<open>math.atan2\<close> (first argument the ordinate) and \<open>math.isclose\<close>
  with its default relative tolerance \<open>1e-09\<close>.\<close>

definition hypot :: "real \<Rightarrow> real \<Rightarrow> real" where
  "hypot a b = sqrt (a * a + b * b)"

definition atan2 :: "real \<Rightarrow> real \<Rightarrow> real" where
  "atan2 a b =
     (if 0 < b then arctan (a / b)
      else if b < 0 \<and> 0 \<le> a then arctan (a / b) + pi
      else if b < 0 then arctan (a / b) - pi
      else if 0 < a then pi / 2
      else if a < 0 then - (pi / 2)
      else 0)"

definition isclose :: "real \<Rightarrow> real \<Rightarrow> real \<Rightarrow> bool" where
  "isclose a b abs_tol =
     (a = b \<or> \<bar>b - a\<bar> \<le> \<bar>(1 / 1000000000) * b\<bar> \<or> \<bar>b - a\<bar> \<le> \<bar>(1 / 1000000000) * a\<bar>
        \<or> \<bar>b - a\<bar> \<le> abs_tol)"

section \<open>Cube uvmap helpers\<close>

datatype UnitCubeFaceEnum = XPLUS | XMINUS | YPLUS | YMINUS | ZPLUS | ZMINUS

text \<open>Iteration order of the enumeration, which is the insertion order of the
  dictionary \<open>face_facets\<close>.\<close>

definition UnitCubeFaceEnum_members :: "UnitCubeFaceEnum list" where
  "UnitCubeFaceEnum_members = [XPLUS, XMINUS, YPLUS, YMINUS, ZPLUS, ZMINUS]"

fun UNIT_CUBE_FACES_NORMALS :: "UnitCubeFaceEnum \<Rightarrow> Vector" where
  "UNIT_CUBE_FACES_NORMALS XPLUS = Vector 1 0 0"
| "UNIT_CUBE_FACES_NORMALS XMINUS = Vector (- 1) 0 0"
| "UNIT_CUBE_FACES_NORMALS YPLUS = Vector 0 1 0"
| "UNIT_CUBE_FACES_NORMALS YMINUS = Vector 0 (- 1) 0"
| "UNIT_CUBE_FACES_NORMALS ZPLUS = Vector 0 0 1"
| "UNIT_CUBE_FACES_NORMALS ZMINUS = Vector 0 0 (- 1)"

definition intersect_unitcube_face :: "Vector \<Rightarrow> UnitCubeFaceEnum" where
  "intersect_unitcube_face direction =
     (let dabs = (\<bar>vx direction\<bar>, \<bar>vy direction\<bar>, \<bar>vz direction\<bar>) in
      if fst dabs \<ge> fst (snd dabs) \<and> fst dabs \<ge> snd (snd dabs) then
        (if vx direction \<ge> 0 then XPLUS else XMINUS)
      else if fst (snd dabs) \<ge> fst dabs \<and> fst (snd dabs) \<ge> snd (snd dabs) then
        (if vy direction \<ge> 0 then YPLUS else YMINUS)
      else (if vz direction \<ge> 0 then ZPLUS else ZMINUS))"

fun compute_uv_from_unitcube :: "Vector \<Rightarrow> UnitCubeFaceEnum \<Rightarrow> Vector2d" where
  "compute_uv_from_unitcube point XPLUS = Vector2d (vy point) (vz point)"
| "compute_uv_from_unitcube point YPLUS = Vector2d (- vx point) (vz point)"
| "compute_uv_from_unitcube point XMINUS = Vector2d (- vy point) (vz point)"
| "compute_uv_from_unitcube point YMINUS = Vector2d (vx point) (vz point)"
| "compute_uv_from_unitcube point ZPLUS = Vector2d (vx point) (vy point)"
| "compute_uv_from_unitcube point ZMINUS = Vector2d (vx point) (- vy point)"

section \<open>The host application's geometry types\<close>

text \<open>
  Modelled from the spec: the matrix and placement types of the host application, which
  the specification describes as an affine transform exposing its inverse and its
  matrix form.  A matrix is kept as the three rows of its linear part and its
  translation; a placement as its matrix together with the matrix of its inverse, so that
  \<open>placement.inverse()\<close> swaps the two.  \<open>App.Base.Placement()\<close> is the null placement.
\<close>

datatype Matrix = Matrix (rowx: Vector) (rowy: Vector) (rowz: Vector) (translation: Vector)

definition unit_matrix :: Matrix where
  "unit_matrix = Matrix (Vector 1 0 0) (Vector 0 1 0) (Vector 0 0 1) (Vector 0 0 0)"

definition mat_apply :: "Matrix \<Rightarrow> Vector \<Rightarrow> Vector" where
  "mat_apply M p = Vector (vdot (rowx M) p + vx (translation M))
                          (vdot (rowy M) p + vy (translation M))
                          (vdot (rowz M) p + vz (translation M))"

datatype Placement = Placement (PMatrix: Matrix) (PInverseMatrix: Matrix)

definition null_placement :: Placement where
  "null_placement = Placement unit_matrix unit_matrix"

definition placement_inverse :: "Placement \<Rightarrow> Placement" where
  "placement_inverse p = Placement (PInverseMatrix p) (PMatrix p)"

text \<open>
  Modelled from the spec: the mesh type of the host application: an ordered sequence
  of points and triangular facets referring to three points each, with a placement of
  its own.  A facet read from a mesh exposes its three points and a normal derived from
  them.  \<open>Mesh.Mesh(facets)\<close> collects the points of the given facets, a point shared by
  several facets of that list once; \<open>addMesh\<close> appends the points and facets of the
  other mesh without looking for points already present; \<open>transform\<close> moves every point
  by the matrix.  The model has value semantics, so \<open>copy\<close> is the identity.
\<close>

record Mesh =
  Points :: "Vector list"
  FacetIndices :: "(nat \<times> nat \<times> nat) list"
  MeshPlacement :: Placement

datatype Facet = Facet (FPoints: "Vector \<times> Vector \<times> Vector") (Normal: Vector)

definition vcross :: "Vector \<Rightarrow> Vector \<Rightarrow> Vector" where
  "vcross a b = Vector (vy a * vz b - vz a * vy b)
                       (vz a * vx b - vx a * vz b)
                       (vx a * vy b - vy a * vx b)"

definition facet_normal :: "Vector \<Rightarrow> Vector \<Rightarrow> Vector \<Rightarrow> Vector" where
  "facet_normal p1 p2 p3 =
     (let n = vcross (vsub p2 p1) (vsub p3 p1) in
      if vlength n = 0 then n else vdiv n (vlength n))"

text \<open>The facets of a mesh.  By the invariant of the host's meshes (section 3 of the
  specification) the indices of a facet are valid indices of the point sequence; the
  example meshes below satisfy it.\<close>

definition Facets :: "Mesh \<Rightarrow> Facet list" where
  "Facets m = map (\<lambda>(i, j, k).
       let p1 = Points m ! i; p2 = Points m ! j; p3 = Points m ! k
       in Facet (p1, p2, p3) (facet_normal p1 p2 p3)) (FacetIndices m)"

definition empty_mesh :: Mesh where
  "empty_mesh = \<lparr>Points = [], FacetIndices = [], MeshPlacement = null_placement\<rparr>"

fun index_of :: "Vector \<Rightarrow> Vector list \<Rightarrow> nat" where
  "index_of p [] = 0"
| "index_of p (q # qs) = (if p = q then 0 else Suc (index_of p qs))"

definition add_point :: "Vector \<Rightarrow> Vector list \<Rightarrow> nat \<times> Vector list" where
  "add_point p ps =
     (let i = index_of p ps in (i, if i < length ps then ps else ps @ [p]))"

definition add_facet :: "Mesh \<Rightarrow> Facet \<Rightarrow> Mesh" where
  "add_facet m facet =
     (case FPoints facet of (pt1, pt2, pt3) \<Rightarrow>
        (case add_point pt1 (Points m) of (i, ps1) \<Rightarrow>
        (case add_point pt2 ps1 of (j, ps2) \<Rightarrow>
        (case add_point pt3 ps2 of (k, ps3) \<Rightarrow>
           m\<lparr>Points := ps3, FacetIndices := FacetIndices m @ [(i, j, k)]\<rparr>))))"

definition mesh_of_facets :: "Facet list \<Rightarrow> Mesh" where
  "mesh_of_facets facets = foldl add_facet empty_mesh facets"

definition transform :: "Matrix \<Rightarrow> Mesh \<Rightarrow> Mesh" where
  "transform M m = m\<lparr>Points := map (mat_apply M) (Points m)\<rparr>"

definition addMesh :: "Mesh \<Rightarrow> Mesh \<Rightarrow> Mesh" where
  "addMesh m other =
     (let n = length (Points m) in
      m\<lparr>Points := Points m @ Points other,
        FacetIndices := FacetIndices m
           @ map (\<lambda>(i, j, k). (i + n, j + n, k + n)) (FacetIndices other)\<rparr>)"

definition mesh_copy :: "Mesh \<Rightarrow> Mesh" where
  "mesh_copy m = m"

section \<open>Other uvmap helpers\<close>

definition compute_barycenter :: "Vector list \<Rightarrow> Vector" where
  "compute_barycenter points =
     (let length = length points; origin = Vector 0 0 0 in
      if length = 0 then origin
      else vdiv (foldl vadd origin points) (real length))"

definition is_facet_normal_to_vector :: "Facet \<Rightarrow> Vector \<Rightarrow> error + bool" where
  "is_facet_normal_to_vector facet vector =
     (case FPoints facet of (pt1, pt2, pt3) \<Rightarrow>
        (case normalize_v (vsub pt2 pt1) of Inl e \<Rightarrow> Inl e | Inr vec1 \<Rightarrow>
        (case normalize_v (vsub pt3 pt1) of Inl e \<Rightarrow> Inl e | Inr vec2 \<Rightarrow>
        (case normalize_v vector of Inl e \<Rightarrow> Inl e | Inr vector' \<Rightarrow>
           (let tolerance = 1 / 100000 in
            Inr (isclose (vdot vec1 vector') 0 tolerance
                 \<and> isclose (vdot vec2 vector') 0 tolerance))))))"

section \<open>RenderingMesh\<close>

text \<open>
  The object: the private attributes \<open>__mesh\<close>, \<open>__originalmesh\<close>,
  \<open>__originalplacement\<close> and \<open>__uvmap\<close>.  The two attributes of the original are set
  only by the constructor's branch for a given mesh, so they are optional; reading one
  that is not set raises \<open>AttributeError\<close>.  A method is a function from the object to
  the exception it raised, if any, and the object afterwards.  The constructor's test
  \<open>if mesh\<close> is read as the test that a mesh is given; its assertion compares the
  placement of the given mesh with the null placement.
\<close>

record RenderingMesh =
  mesh :: Mesh
  originalmesh :: "Mesh option"
  originalplacement :: "Placement option"
  uvmap :: "Vector2d list option"

definition RenderingMesh_init ::
    "Mesh option \<Rightarrow> Vector2d list option \<Rightarrow> Placement \<Rightarrow> error + RenderingMesh" where
  "RenderingMesh_init mesh_arg uvmap_arg placement =
     (case mesh_arg of
        Some m \<Rightarrow>
          if MeshPlacement m \<noteq> null_placement then Inl AssertionError
          else Inr \<lparr>mesh = m,
                    originalmesh =
                      Some (transform (PMatrix (placement_inverse placement)) (mesh_copy m)),
                    originalplacement = Some placement,
                    uvmap = uvmap_arg\<rparr>
      | None \<Rightarrow>
          Inr \<lparr>mesh = empty_mesh, originalmesh = None, originalplacement = None,
               uvmap = uvmap_arg\<rparr>)"

text \<open>\<open>copy\<close> passes the mesh and the uv map to the constructor, and no placement: the
  constructor's default, the null placement, applies.\<close>

definition copy :: "RenderingMesh \<Rightarrow> error + RenderingMesh" where
  "copy self = RenderingMesh_init (Some (mesh_copy (mesh self))) (uvmap self) null_placement"

definition has_uvmap :: "RenderingMesh \<Rightarrow> bool" where
  "has_uvmap self = (uvmap self \<noteq> None)"

subsection \<open>Cubic case\<close>

definition classify_facets :: "Facet list \<Rightarrow> UnitCubeFaceEnum \<Rightarrow> Facet list" where
  "classify_facets facets =
     foldl (\<lambda>face_facets facet.
              let cubeface = intersect_unitcube_face (Normal facet)
              in face_facets(cubeface := face_facets cubeface @ [facet]))
           (\<lambda>f. []) facets"

definition cube_rebuild_step ::
    "Matrix \<Rightarrow> (UnitCubeFaceEnum \<Rightarrow> Facet list) \<Rightarrow> Vector2d list \<times> Mesh
       \<Rightarrow> UnitCubeFaceEnum \<Rightarrow> Vector2d list \<times> Mesh" where
  "cube_rebuild_step M face_facets acc cubeface =
     (case acc of (uvmap_acc, mesh_acc) \<Rightarrow>
        (let facemesh = mesh_of_facets (face_facets cubeface);
             facemesh_uvmap =
               map (\<lambda>p. compute_uv_from_unitcube (vdiv p 1000) cubeface) (Points facemesh)
         in (uvmap_acc @ facemesh_uvmap, addMesh mesh_acc (transform M facemesh))))"

definition compute_uvmap_cube :: "RenderingMesh \<Rightarrow> error option \<times> RenderingMesh" where
  "compute_uvmap_cube self =
     (case originalmesh self of
        None \<Rightarrow> (Some AttributeError, self)
      | Some om \<Rightarrow>
          (let face_facets = classify_facets (Facets om) in
           case originalplacement self of
             None \<Rightarrow> (Some AttributeError, self)
           | Some P \<Rightarrow>
               (case foldl (cube_rebuild_step (PMatrix P) face_facets) ([], empty_mesh)
                       UnitCubeFaceEnum_members of
                  (uvmap_new, mesh_new) \<Rightarrow>
                    (None, self\<lparr>mesh := mesh_new, uvmap := Some uvmap_new\<rparr>))))"

subsection \<open>Cylindric case\<close>

definition z_vector :: Vector where
  "z_vector = Vector 0 0 1"

fun split_facets ::
    "Facet list \<Rightarrow> Facet list \<times> Facet list \<Rightarrow> error + (Facet list \<times> Facet list)" where
  "split_facets [] faces = Inr faces"
| "split_facets (facet # rest) faces =
     (case is_facet_normal_to_vector facet z_vector of
        Inl e \<Rightarrow> Inl e
      | Inr True \<Rightarrow> split_facets rest (fst faces, snd faces @ [facet])
      | Inr False \<Rightarrow> split_facets rest (fst faces @ [facet], snd faces))"

definition compute_uvmap_cylinder :: "RenderingMesh \<Rightarrow> error option \<times> RenderingMesh" where
  "compute_uvmap_cylinder self =
     (case originalmesh self of
        None \<Rightarrow> (Some AttributeError, self)
      | Some om \<Rightarrow>
          (case split_facets (Facets om) ([], []) of
             Inl e \<Rightarrow> (Some e, self)
           | Inr faces \<Rightarrow>
               (let regular_mesh = mesh_of_facets (fst faces);
                    points = Points regular_mesh
                in if length points = 0 then (Some ZeroDivisionError, self)
                   else
                     (let avg_radius =
                            sum_list (map (\<lambda>p. hypot (vx p) (vy p)) points)
                              / real (length points);
                          uvmap1 =
                            map (\<lambda>p. uv_scale (Vector2d (atan2 (vx p) (vy p) * avg_radius) (vz p))
                                        (1 / 1000)) points
                      in case originalplacement self of
                           None \<Rightarrow> (Some AttributeError, self)
                         | Some P \<Rightarrow>
                             (let mesh1 = addMesh empty_mesh (transform (PMatrix P) regular_mesh);
                                  z_mesh = mesh_of_facets (snd faces);
                                  uvmap2 = uvmap1
                                    @ map (\<lambda>p. Vector2d (vx p / 1000) (vy p / 1000)) (Points z_mesh);
                                  mesh2 = addMesh mesh1 (transform (PMatrix P) z_mesh)
                              in (None, self\<lparr>mesh := mesh2, uvmap := Some uvmap2\<rparr>))))))"

subsection \<open>Spherical case\<close>

text \<open>The element of the generator: \<open>v.z / v.Length\<close> raises for a vector of length zero.\<close>

definition sphere_uv :: "Vector \<Rightarrow> error + Vector2d" where
  "sphere_uv v =
     (if vlength v = 0 then Inl ZeroDivisionError
      else Inr (uv_scale
                  (Vector2d (1 / 2 + atan2 (vx v) (vy v) / (2 * pi))
                            (1 / 2 + arcsin (vz v / vlength v) / pi))
                  (vlength v / 1000 * pi)))"

fun map_err :: "('a \<Rightarrow> error + 'b) \<Rightarrow> 'a list \<Rightarrow> error + 'b list" where
  "map_err f [] = Inr []"
| "map_err f (x # xs) =
     (case f x of
        Inl e \<Rightarrow> Inl e
      | Inr y \<Rightarrow> (case map_err f xs of Inl e \<Rightarrow> Inl e | Inr ys \<Rightarrow> Inr (y # ys)))"

definition compute_uvmap_sphere :: "RenderingMesh \<Rightarrow> error option \<times> RenderingMesh" where
  "compute_uvmap_sphere self =
     (case originalmesh self of
        None \<Rightarrow> (Some AttributeError, self)
      | Some om \<Rightarrow>
          (let origin = compute_barycenter (Points om);
               vectors = map (\<lambda>p. vsub p origin) (Points om)
           in case map_err sphere_uv vectors of
                Inl e \<Rightarrow> (Some e, self)
              | Inr uvs \<Rightarrow> (None, self\<lparr>uvmap := Some uvs\<rparr>)))"

subsection \<open>Dispatch\<close>

text \<open>The argument \<open>projection\<close> is \<open>None\<close> or a string.\<close>

definition compute_uvmap ::
    "string option \<Rightarrow> RenderingMesh \<Rightarrow> error option \<times> RenderingMesh" where
  "compute_uvmap projection_arg self =
     (let projection = (case projection_arg of None \<Rightarrow> ''Cubic'' | Some p \<Rightarrow> p) in
      if projection = ''Cubic'' then compute_uvmap_cube self
      else if projection = ''Spherical'' then compute_uvmap_sphere self
      else if projection = ''Cylindric'' then compute_uvmap_cylinder self
      else (Some ValueError, self))"

section \<open>Vocabulary of the specification\<close>

text \<open>
  The points of the sub-mesh built for one cube face: the facets of the original mesh
  whose normal classifies to that face, in the order of the original mesh.
\<close>

definition cube_face_points :: "Mesh \<Rightarrow> UnitCubeFaceEnum \<Rightarrow> Vector list" where
  "cube_face_points om f =
     Points (mesh_of_facets
       (filter (\<lambda>facet. intersect_unitcube_face (Normal facet) = f) (Facets om)))"

text \<open>
  A facet is axis-normal when both edge vectors from its first point, normalised, have
  a dot product with the normalised Z axis within \<open>1e-5\<close> of zero.  The edge vectors
  of a non-degenerate facet are not null.
\<close>

definition unit_v :: "Vector \<Rightarrow> Vector" where
  "unit_v v = vdiv v (vlength v)"

definition axis_normal :: "Facet \<Rightarrow> bool" where
  "axis_normal facet =
     (case FPoints facet of (p1, p2, p3) \<Rightarrow>
        \<bar>vdot (unit_v (vsub p2 p1)) (unit_v z_vector)\<bar> \<le> 1 / 100000
        \<and> \<bar>vdot (unit_v (vsub p3 p1)) (unit_v z_vector)\<bar> \<le> 1 / 100000)"

definition nondegenerate :: "Facet \<Rightarrow> bool" where
  "nondegenerate facet = (case FPoints facet of (p1, p2, p3) \<Rightarrow> p2 \<noteq> p1 \<and> p3 \<noteq> p1)"

definition regular_points :: "Mesh \<Rightarrow> Vector list" where
  "regular_points om =
     Points (mesh_of_facets (filter (\<lambda>facet. \<not> axis_normal facet) (Facets om)))"

definition axis_normal_points :: "Mesh \<Rightarrow> Vector list" where
  "axis_normal_points om = Points (mesh_of_facets (filter axis_normal (Facets om)))"

definition avg_radius :: "Vector list \<Rightarrow> real" where
  "avg_radius pts = sum_list (map (\<lambda>p. hypot (vx p) (vy p)) pts) / real (length pts)"

text \<open>The spherical coordinate of a vector from the barycenter, and the arithmetic mean
  of a sequence of points.\<close>

definition sphere_projection :: "Vector \<Rightarrow> Vector2d" where
  "sphere_projection v =
     Vector2d ((1 / 2 + atan2 (vx v) (vy v) / (2 * pi)) * (vlength v / 1000 * pi))
              ((1 / 2 + arcsin (vz v / vlength v) / pi) * (vlength v / 1000 * pi))"

definition mean_point :: "Vector list \<Rightarrow> Vector" where
  "mean_point pts = Vector (sum_list (map vx pts) / real (length pts))
                           (sum_list (map vy pts) / real (length pts))
                           (sum_list (map vz pts) / real (length pts))"

section \<open>Example meshes and objects\<close>

text \<open>A triangle in the plane \<open>z = 0\<close>, facing \<open>+Z\<close>.\<close>

definition tri_z :: Mesh where
  "tri_z = \<lparr>Points = [Vector 0 0 0, Vector 1 0 0, Vector 0 1 0],
             FacetIndices = [(0, 1, 2)], MeshPlacement = null_placement\<rparr>"

text \<open>Two triangles sharing an edge: the first in the plane \<open>z = 0\<close> facing \<open>+Z\<close>, the second
  in the plane \<open>y = 0\<close> facing \<open>+Y\<close>.\<close>

definition two_faces :: Mesh where
  "two_faces = \<lparr>Points = [Vector 0 0 0, Vector 1 0 0, Vector 0 1 0, Vector 0 0 1],
                 FacetIndices = [(0, 1, 2), (0, 3, 1)], MeshPlacement = null_placement\<rparr>"

text \<open>A flat square of four triangles around a centre vertex, which is its barycenter.\<close>

definition fan :: Mesh where
  "fan = \<lparr>Points = [Vector 0 0 0, Vector 1 0 0, Vector 0 1 0, Vector (- 1) 0 0, Vector 0 (- 1) 0],
           FacetIndices = [(0, 1, 2), (0, 2, 3), (0, 3, 4), (0, 4, 1)],
           MeshPlacement = null_placement\<rparr>"

text \<open>The cube of side 1000 centred at the origin: 8 vertices, 12 triangles, normals outward.\<close>

definition unit_cube :: Mesh where
  "unit_cube = \<lparr>Points = [Vector (- 500) (- 500) (- 500), Vector 500 (- 500) (- 500),
                           Vector 500 500 (- 500), Vector (- 500) 500 (- 500),
                           Vector (- 500) (- 500) 500, Vector 500 (- 500) 500,
                           Vector 500 500 500, Vector (- 500) 500 500],
     FacetIndices = [(0, 2, 1), (0, 3, 2), (4, 5, 6), (4, 6, 7), (0, 1, 5), (0, 5, 4),
                     (2, 3, 7), (2, 7, 6), (0, 4, 7), (0, 7, 3), (1, 2, 6), (1, 6, 5)],
     MeshPlacement = null_placement\<rparr>"

text \<open>Two placements: the translation by 1000 along Z, and the quarter turn about Y
  that takes \<open>(x, y, z)\<close> to \<open>(z, y, -x)\<close> followed by the translation by 1000 along X.\<close>

definition shift_z :: Placement where
  "shift_z = Placement (Matrix (Vector 1 0 0) (Vector 0 1 0) (Vector 0 0 1) (Vector 0 0 1000))
                       (Matrix (Vector 1 0 0) (Vector 0 1 0) (Vector 0 0 1) (Vector 0 0 (- 1000)))"

definition turn_y_shift_x :: Placement where
  "turn_y_shift_x =
     Placement (Matrix (Vector 0 0 1) (Vector 0 1 0) (Vector (- 1) 0 0) (Vector 1000 0 0))
               (Matrix (Vector 0 0 (- 1)) (Vector 0 1 0) (Vector 1 0 0) (Vector 0 0 (- 1000)))"

text \<open>The object the constructor builds from a mesh without placement of its own, for a
  given placement and no uv map.\<close>

definition constructed :: "Mesh \<Rightarrow> Placement \<Rightarrow> RenderingMesh" where
  "constructed m P = \<lparr>mesh = m, originalmesh = Some (transform (PInverseMatrix P) m),
                       originalplacement = Some P, uvmap = None\<rparr>"

text \<open>The two-triangle object, constructed without placement, after one cubic run.\<close>

definition two_faces_after_cubic :: RenderingMesh where
  "two_faces_after_cubic =
     snd (compute_uvmap (Some ''Cubic'') (constructed two_faces null_placement))"

section \<open>Properties of the model\<close>

subsection \<open>Auxiliary facts\<close>

lemma mat_apply_unit_matrix: "mat_apply unit_matrix p = p"
  by (cases p) (simp add: mat_apply_def unit_matrix_def vdot_def)

lemma transform_unit_matrix: "transform unit_matrix m = m"
  by (simp add: transform_def mat_apply_unit_matrix cong: map_cong)

lemma Points_transform: "Points (transform M m) = map (mat_apply M) (Points m)"
  by (simp add: transform_def)

lemma Points_addMesh: "Points (addMesh m other) = Points m @ Points other"
  by (simp add: addMesh_def Let_def)

lemma Points_empty_mesh: "Points empty_mesh = []"
  by (simp add: empty_mesh_def)

lemma classify_facets_foldl:
  "foldl (\<lambda>face_facets facet.
              let cubeface = intersect_unitcube_face (Normal facet)
              in face_facets(cubeface := face_facets cubeface @ [facet])) d facets f
   = d f @ filter (\<lambda>facet. intersect_unitcube_face (Normal facet) = f) facets"
  by (induction facets arbitrary: d) (simp_all add: Let_def)

lemma classify_facets_filter:
  "classify_facets facets f = filter (\<lambda>facet. intersect_unitcube_face (Normal facet) = f) facets"
  by (simp add: classify_facets_def classify_facets_foldl)

lemma cube_rebuild_foldl:
  "foldl (cube_rebuild_step M ff) (uv0, m0) faces =
     (uv0 @ concat (map (\<lambda>f. map (\<lambda>p. compute_uv_from_unitcube (vdiv p 1000) f)
                                 (Points (mesh_of_facets (ff f)))) faces),
      foldl (\<lambda>m f. addMesh m (transform M (mesh_of_facets (ff f)))) m0 faces)"
  by (induction faces arbitrary: uv0 m0) (simp_all add: cube_rebuild_step_def Let_def)

lemma Points_foldl_addMesh:
  "Points (foldl (\<lambda>m f. addMesh m (transform M (g f))) m0 faces) =
     Points m0 @ concat (map (\<lambda>f. map (mat_apply M) (Points (g f))) faces)"
  by (induction faces arbitrary: m0) (simp_all add: Points_addMesh Points_transform)

lemma split_facets_Inr:
  "\<forall>f \<in> set fs. \<exists>t. is_facet_normal_to_vector f z_vector = Inr t \<Longrightarrow>
     split_facets fs faces =
       Inr (fst faces @ filter (\<lambda>f. is_facet_normal_to_vector f z_vector = Inr False) fs,
            snd faces @ filter (\<lambda>f. is_facet_normal_to_vector f z_vector = Inr True) fs)"
proof (induction fs arbitrary: faces)
  case Nil
  then show ?case by simp
next
  case (Cons f fs)
  from Cons.prems obtain t where t: "is_facet_normal_to_vector f z_vector = Inr t"
    by auto
  from Cons.prems have rest: "\<forall>f \<in> set fs. \<exists>t. is_facet_normal_to_vector f z_vector = Inr t"
    by simp
  show ?case
    by (cases t) (simp_all add: t Cons.IH [OF rest])
qed

lemma map_err_all_Inr:
  "\<forall>x \<in> set xs. f x = Inr (g x) \<Longrightarrow> map_err f xs = Inr (map g xs)"
  by (induction xs) simp_all

lemma map_err_Inl:
  "map_err f xs = Inl e \<Longrightarrow> \<exists>x \<in> set xs. f x = Inl e"
  by (induction xs) (auto split: sum.splits)

lemma map_err_sphere_uv:
  "map_err sphere_uv vs =
     (if \<forall>v \<in> set vs. vlength v \<noteq> 0
      then Inr (map (\<lambda>v. uv_scale
                  (Vector2d (1 / 2 + atan2 (vx v) (vy v) / (2 * pi))
                            (1 / 2 + arcsin (vz v / vlength v) / pi))
                  (vlength v / 1000 * pi)) vs)
      else Inl ZeroDivisionError)"
proof (cases "\<forall>v \<in> set vs. vlength v \<noteq> 0")
  case True
  then show ?thesis
    by (simp add: map_err_all_Inr sphere_uv_def)
next
  case False
  have "\<And>v e. sphere_uv v = Inl e \<Longrightarrow> e = ZeroDivisionError"
    by (simp add: sphere_uv_def split: if_splits)
  moreover have "\<And>ys. map_err sphere_uv vs \<noteq> Inr ys"
    using False by (induction vs) (auto simp add: sphere_uv_def split: sum.splits)
  ultimately show ?thesis
    using False by (cases "map_err sphere_uv vs") (auto dest: map_err_Inl)
qed

lemma isclose_zero: "0 \<le> t \<Longrightarrow> isclose a 0 t \<longleftrightarrow> \<bar>a\<bar> \<le> t"
  by (auto simp add: isclose_def abs_if split: if_splits)


lemma vlength_eq_0_iff: "vlength v = 0 \<longleftrightarrow> v = Vector 0 0 0"
proof (cases v)
  case (Vector a b c)
  have "(a * a + b * b) + c * c = 0 \<longleftrightarrow> a * a + b * b = 0 \<and> c * c = 0"
    by (rule add_nonneg_eq_0_iff) simp_all
  then have "a * a + b * b + c * c = 0 \<longleftrightarrow> a = 0 \<and> b = 0 \<and> c = 0"
    by (simp add: sum_squares_eq_zero_iff)
  then show ?thesis
    by (simp add: vlength_def Vector)
qed

lemma compute_uvmap_cube_result:
  assumes "originalmesh self = Some om" and "originalplacement self = Some P"
  shows "\<exists>mesh_new. compute_uvmap_cube self =
           (None, self\<lparr>mesh := mesh_new,
              uvmap := Some (concat (map (\<lambda>f. map (\<lambda>p. compute_uv_from_unitcube (vdiv p 1000) f)
                                  (cube_face_points om f)) UnitCubeFaceEnum_members))\<rparr>)
         \<and> Points mesh_new =
             concat (map (\<lambda>f. map (mat_apply (PMatrix P)) (cube_face_points om f))
                      UnitCubeFaceEnum_members)"
proof -
  let ?ff = "classify_facets (Facets om)"
  let ?m = "foldl (\<lambda>m f. addMesh m (transform (PMatrix P) (mesh_of_facets (?ff f))))
              empty_mesh UnitCubeFaceEnum_members"
  have pts: "\<And>f. Points (mesh_of_facets (?ff f)) = cube_face_points om f"
    by (simp add: cube_face_points_def classify_facets_filter)
  have "compute_uvmap_cube self =
           (None, self\<lparr>mesh := ?m,
              uvmap := Some (concat (map (\<lambda>f. map (\<lambda>p. compute_uv_from_unitcube (vdiv p 1000) f)
                                  (cube_face_points om f)) UnitCubeFaceEnum_members))\<rparr>)"
    by (simp add: compute_uvmap_cube_def assms cube_rebuild_foldl pts)
  moreover have "Points ?m =
             concat (map (\<lambda>f. map (mat_apply (PMatrix P)) (cube_face_points om f))
                      UnitCubeFaceEnum_members)"
    by (simp only: Points_foldl_addMesh Points_empty_mesh pts append_Nil)
  ultimately show ?thesis by blast
qed

lemma vsub_eq_0_iff: "vsub a b = Vector 0 0 0 \<longleftrightarrow> a = b"
  by (cases a; cases b) (simp add: vsub_def)

lemma vlength_z_vector: "vlength z_vector = 1"
  by (simp add: vlength_def z_vector_def)

lemma is_facet_normal_to_vector_nondegenerate:
  assumes "nondegenerate facet"
  shows "is_facet_normal_to_vector facet z_vector = Inr (axis_normal facet)"
proof -
  obtain p1 p2 p3 where pts: "FPoints facet = (p1, p2, p3)"
    by (cases "FPoints facet")
  from assms pts have "vlength (vsub p2 p1) \<noteq> 0" "vlength (vsub p3 p1) \<noteq> 0"
    by (simp_all add: nondegenerate_def vlength_eq_0_iff vsub_eq_0_iff)
  then show ?thesis
    by (simp add: is_facet_normal_to_vector_def pts normalize_v_def vlength_z_vector
        isclose_zero axis_normal_def unit_v_def)
qed

lemma is_facet_normal_to_vector_degenerate:
  assumes "\<not> nondegenerate facet"
  shows "is_facet_normal_to_vector facet z_vector = Inl FreeCADError"
proof -
  obtain p1 p2 p3 where pts: "FPoints facet = (p1, p2, p3)"
    by (cases "FPoints facet")
  from assms pts have "vlength (vsub p2 p1) = 0 \<or> vlength (vsub p3 p1) = 0"
    by (simp add: nondegenerate_def vlength_eq_0_iff vsub_eq_0_iff)
  then show ?thesis
    by (auto simp add: is_facet_normal_to_vector_def pts normalize_v_def)
qed

lemma split_facets_nondegenerate:
  assumes "\<forall>f \<in> set fs. nondegenerate f"
  shows "split_facets fs ([], []) =
           Inr (filter (\<lambda>f. \<not> axis_normal f) fs, filter axis_normal fs)"
proof -
  from assms have ok: "\<forall>f \<in> set fs. \<exists>t. is_facet_normal_to_vector f z_vector = Inr t"
    by (simp add: is_facet_normal_to_vector_nondegenerate)
  have "filter (\<lambda>f. is_facet_normal_to_vector f z_vector = Inr False) fs
          = filter (\<lambda>f. \<not> axis_normal f) fs"
    using assms by (intro filter_cong) (simp_all add: is_facet_normal_to_vector_nondegenerate)
  moreover have "filter (\<lambda>f. is_facet_normal_to_vector f z_vector = Inr True) fs
          = filter axis_normal fs"
    using assms by (intro filter_cong) (simp_all add: is_facet_normal_to_vector_nondegenerate)
  ultimately show ?thesis
    using split_facets_Inr [OF ok, of "([], [])"] by simp
qed

lemma split_facets_degenerate:
  assumes "\<not> (\<forall>f \<in> set fs. nondegenerate f)"
  shows "split_facets fs faces = Inl FreeCADError"
  using assms
proof (induction fs arbitrary: faces)
  case Nil
  then show ?case by simp
next
  case (Cons f fs)
  show ?case
  proof (cases "nondegenerate f")
    case True
    with Cons.prems have "\<not> (\<forall>f \<in> set fs. nondegenerate f)" by simp
    from Cons.IH [OF this] show ?thesis
      by (cases "axis_normal f") (simp_all add: is_facet_normal_to_vector_nondegenerate [OF True])
  next
    case False
    then show ?thesis
      by (simp add: is_facet_normal_to_vector_degenerate)
  qed
qed

lemma compute_uvmap_cylinder_result:
  assumes "originalmesh self = Some om" and "originalplacement self = Some P"
    and "\<forall>f \<in> set (Facets om). nondegenerate f"
    and "regular_points om \<noteq> []"
  shows "\<exists>mesh_new. compute_uvmap_cylinder self =
           (None, self\<lparr>mesh := mesh_new,
              uvmap := Some (map (\<lambda>p. Vector2d (atan2 (vx p) (vy p) * avg_radius (regular_points om) * (1 / 1000))
                                               (vz p * (1 / 1000))) (regular_points om)
                             @ map (\<lambda>p. Vector2d (vx p / 1000) (vy p / 1000)) (axis_normal_points om))\<rparr>)
         \<and> Points mesh_new = map (mat_apply (PMatrix P)) (regular_points om)
                               @ map (mat_apply (PMatrix P)) (axis_normal_points om)"
proof -
  let ?m = "addMesh (addMesh empty_mesh (transform (PMatrix P)
                 (mesh_of_facets (filter (\<lambda>f. \<not> axis_normal f) (Facets om)))))
              (transform (PMatrix P) (mesh_of_facets (filter axis_normal (Facets om))))"
  have "compute_uvmap_cylinder self =
           (None, self\<lparr>mesh := ?m,
              uvmap := Some (map (\<lambda>p. Vector2d (atan2 (vx p) (vy p) * avg_radius (regular_points om) * (1 / 1000))
                                               (vz p * (1 / 1000))) (regular_points om)
                             @ map (\<lambda>p. Vector2d (vx p / 1000) (vy p / 1000)) (axis_normal_points om))\<rparr>)"
    using assms(4)
    by (simp add: compute_uvmap_cylinder_def assms(1,2) split_facets_nondegenerate [OF assms(3)]
        Let_def regular_points_def axis_normal_points_def avg_radius_def uv_scale_def)
  moreover have "Points ?m = map (mat_apply (PMatrix P)) (regular_points om)
                               @ map (mat_apply (PMatrix P)) (axis_normal_points om)"
    by (simp add: Points_addMesh Points_transform Points_empty_mesh regular_points_def
        axis_normal_points_def)
  ultimately show ?thesis by blast
qed

lemma foldl_vadd:
  "foldl vadd a pts = Vector (vx a + sum_list (map vx pts)) (vy a + sum_list (map vy pts))
                             (vz a + sum_list (map vz pts))"
  by (induction pts arbitrary: a) (simp_all add: vadd_def add.assoc)

lemma compute_barycenter_mean:
  "compute_barycenter pts = (if pts = [] then Vector 0 0 0 else mean_point pts)"
  by (simp add: compute_barycenter_def Let_def foldl_vadd mean_point_def vdiv_def)

lemma compute_uvmap_sphere_result:
  assumes "originalmesh self = Some om"
  shows "compute_uvmap_sphere self =
     (if \<forall>p \<in> set (Points om). vlength (vsub p (compute_barycenter (Points om))) \<noteq> 0
      then (None, self\<lparr>uvmap := Some (map (\<lambda>p. sphere_projection (vsub p (compute_barycenter (Points om))))
                                       (Points om))\<rparr>)
      else (Some ZeroDivisionError, self))"
  by (simp add: compute_uvmap_sphere_def assms Let_def map_err_sphere_uv sphere_projection_def
      uv_scale_def comp_def)

subsection \<open>The cube-face classifier\<close>

text \<open>
  C2.  The classifier is total and returns one of the six faces.  The component of the
  direction along the outward normal of the returned face equals the greatest absolute
  value of the three components: the axis is one of greatest magnitude and the sign of
  the component chooses between the plus and the minus face (strictly, for a non-zero
  direction).  Ties go to X before Y before Z, since the comparisons are \<open>\<ge>\<close> and are
  made in that order: a Y face is returned only when \<open>|y|\<close> is strictly above \<open>|x|\<close>, a Z
  face only when \<open>|z|\<close> is strictly above both.  \<open>(1,1,0)\<close> and \<open>(1,0,0)\<close> classify to
  \<open>+X\<close>, \<open>(0,0,-1)\<close> to \<open>-Z\<close>.
\<close>

theorem intersect_unitcube_face_greatest_axis:
  "intersect_unitcube_face d \<in> set UnitCubeFaceEnum_members
   \<and> vdot (UNIT_CUBE_FACES_NORMALS (intersect_unitcube_face d)) d
       = max \<bar>vx d\<bar> (max \<bar>vy d\<bar> \<bar>vz d\<bar>)
   \<and> (d \<noteq> Vector 0 0 0 \<longrightarrow>
        0 < vdot (UNIT_CUBE_FACES_NORMALS (intersect_unitcube_face d)) d)
   \<and> (intersect_unitcube_face d \<in> {XPLUS, XMINUS} \<longleftrightarrow> \<bar>vx d\<bar> \<ge> \<bar>vy d\<bar> \<and> \<bar>vx d\<bar> \<ge> \<bar>vz d\<bar>)
   \<and> (intersect_unitcube_face d \<in> {YPLUS, YMINUS} \<longleftrightarrow> \<bar>vy d\<bar> > \<bar>vx d\<bar> \<and> \<bar>vy d\<bar> \<ge> \<bar>vz d\<bar>)
   \<and> (intersect_unitcube_face d \<in> {ZPLUS, ZMINUS} \<longleftrightarrow> \<bar>vz d\<bar> > \<bar>vx d\<bar> \<and> \<bar>vz d\<bar> > \<bar>vy d\<bar>)
   \<and> intersect_unitcube_face (Vector 1 1 0) = XPLUS
   \<and> intersect_unitcube_face (Vector 1 0 0) = XPLUS
   \<and> intersect_unitcube_face (Vector 0 0 (- 1)) = ZMINUS"
proof -
  obtain x y z where d: "d = Vector x y z" by (cases d)
  have members: "intersect_unitcube_face d \<in> set UnitCubeFaceEnum_members"
    by (cases "intersect_unitcube_face d") (simp_all add: UnitCubeFaceEnum_members_def)
  have along: "vdot (UNIT_CUBE_FACES_NORMALS (intersect_unitcube_face d)) d
       = max \<bar>vx d\<bar> (max \<bar>vy d\<bar> \<bar>vz d\<bar>)"
    unfolding d by (auto simp add: intersect_unitcube_face_def vdot_def Let_def)
  have "d \<noteq> Vector 0 0 0 \<Longrightarrow> 0 < max \<bar>vx d\<bar> (max \<bar>vy d\<bar> \<bar>vz d\<bar>)"
    unfolding d by auto
  then have strict: "d \<noteq> Vector 0 0 0 \<longrightarrow>
        0 < vdot (UNIT_CUBE_FACES_NORMALS (intersect_unitcube_face d)) d"
    using along by simp
  have xs: "intersect_unitcube_face d \<in> {XPLUS, XMINUS} \<longleftrightarrow> \<bar>vx d\<bar> \<ge> \<bar>vy d\<bar> \<and> \<bar>vx d\<bar> \<ge> \<bar>vz d\<bar>"
    unfolding d by (simp add: intersect_unitcube_face_def Let_def)
  have ys: "intersect_unitcube_face d \<in> {YPLUS, YMINUS} \<longleftrightarrow> \<bar>vy d\<bar> > \<bar>vx d\<bar> \<and> \<bar>vy d\<bar> \<ge> \<bar>vz d\<bar>"
    unfolding d by (auto simp add: intersect_unitcube_face_def Let_def)
  have zs: "intersect_unitcube_face d \<in> {ZPLUS, ZMINUS} \<longleftrightarrow> \<bar>vz d\<bar> > \<bar>vx d\<bar> \<and> \<bar>vz d\<bar> > \<bar>vy d\<bar>"
    unfolding d by (auto simp add: intersect_unitcube_face_def Let_def)
  have ex: "intersect_unitcube_face (Vector 1 1 0) = XPLUS"
    "intersect_unitcube_face (Vector 1 0 0) = XPLUS"
    "intersect_unitcube_face (Vector 0 0 (- 1)) = ZMINUS"
    by (simp_all add: intersect_unitcube_face_def Let_def)
  from members along strict xs ys zs ex show ?thesis by blast
qed

theorem intersect_unitcube_face_greatest_axis_witness:
  "Vector 0 (- 3) 2 \<noteq> Vector 0 0 0
   \<and> intersect_unitcube_face (Vector 0 (- 3) 2) = YMINUS
   \<and> vdot (UNIT_CUBE_FACES_NORMALS YMINUS) (Vector 0 (- 3) 2) = 3
   \<and> 0 < vdot (UNIT_CUBE_FACES_NORMALS (intersect_unitcube_face (Vector 0 (- 3) 2))) (Vector 0 (- 3) 2)"
proof -
  have ne: "Vector 0 (- 3) 2 \<noteq> Vector 0 0 0" by simp
  have cls: "intersect_unitcube_face (Vector 0 (- 3) 2) = YMINUS"
    by (simp add: intersect_unitcube_face_def Let_def)
  have dot: "vdot (UNIT_CUBE_FACES_NORMALS YMINUS) (Vector 0 (- 3) 2) = 3"
    by (simp add: vdot_def)
  from intersect_unitcube_face_greatest_axis [of "Vector 0 (- 3) 2"] ne
  have "0 < vdot (UNIT_CUBE_FACES_NORMALS (intersect_unitcube_face (Vector 0 (- 3) 2))) (Vector 0 (- 3) 2)"
    by blast
  with ne cls dot show ?thesis by blast
qed

subsection \<open>Evaluation of the examples\<close>

lemma sqrt_1e12: "sqrt 1000000000000 = 1000000"
  by (rule real_sqrt_unique) simp_all

lemmas mesh_eval =
  Facets_def facet_normal_def vcross_def vsub_def vlength_def vdiv_def vdot_def Let_def
  intersect_unitcube_face_def mesh_of_facets_def add_facet_def add_point_def empty_mesh_def
  transform_def addMesh_def mat_apply_def

lemma unit_cube_face_points:
  "map (cube_face_points unit_cube) [XPLUS, XMINUS, YPLUS, YMINUS, ZPLUS, ZMINUS] =
    [[Vector 500 (- 500) (- 500), Vector 500 500 (- 500), Vector 500 500 500, Vector 500 (- 500) 500],
     [Vector (- 500) (- 500) (- 500), Vector (- 500) (- 500) 500, Vector (- 500) 500 500, Vector (- 500) 500 (- 500)],
     [Vector 500 500 (- 500), Vector (- 500) 500 (- 500), Vector (- 500) 500 500, Vector 500 500 500],
     [Vector (- 500) (- 500) (- 500), Vector 500 (- 500) (- 500), Vector 500 (- 500) 500, Vector (- 500) (- 500) 500],
     [Vector (- 500) (- 500) 500, Vector 500 (- 500) 500, Vector 500 500 500, Vector (- 500) 500 500],
     [Vector (- 500) (- 500) (- 500), Vector 500 500 (- 500), Vector 500 (- 500) (- 500), Vector (- 500) 500 (- 500)]]"
  by (simp add: cube_face_points_def unit_cube_def mesh_eval sqrt_1e12)

lemma PMatrix_null_placement:
  "PMatrix null_placement = unit_matrix" "PInverseMatrix null_placement = unit_matrix"
  by (simp_all add: null_placement_def)

lemma PMatrix_shift_z:
  "PMatrix shift_z = Matrix (Vector 1 0 0) (Vector 0 1 0) (Vector 0 0 1) (Vector 0 0 1000)"
  by (simp add: shift_z_def)

lemma constructed_init:
  "MeshPlacement m = null_placement \<Longrightarrow>
     RenderingMesh_init (Some m) None P = Inr (constructed m P)"
  by (simp add: RenderingMesh_init_def constructed_def placement_inverse_def mesh_copy_def)

subsection \<open>The cubic strategy\<close>

text \<open>
  C3.  On an object whose original mesh and placement are set, the cubic strategy
  returns without error.  The new UV map is, for the faces in the order +X, -X, +Y, -Y,
  +Z, -Z, the projection of every point of that face's sub-mesh, divided by 1000, by
  the unfolding of the face; the points of the new mesh are, in the same order, the
  points of the six sub-meshes placed by the original placement, one after the other with
  nothing merged across faces.  The unfoldings are +X to \<open>(y, z)\<close>, -X to \<open>(-y, z)\<close>, +Y
  to \<open>(-x, z)\<close>, -Y to \<open>(x, z)\<close>, +Z to \<open>(x, y)\<close>, -Z to \<open>(x, -y)\<close>, and the point
  \<open>(500, 500, 500)\<close> on +Z receives \<open>(0.5, 0.5)\<close>.
\<close>

theorem compute_uvmap_cube_unfolding:
  assumes "originalmesh self = Some om" and "originalplacement self = Some P"
  shows "(\<exists>mesh_new.
            compute_uvmap_cube self =
              (None, self\<lparr>mesh := mesh_new,
                 uvmap := Some (concat (map (\<lambda>f. map (\<lambda>p. compute_uv_from_unitcube (vdiv p 1000) f)
                                                   (cube_face_points om f))
                                  [XPLUS, XMINUS, YPLUS, YMINUS, ZPLUS, ZMINUS]))\<rparr>)
            \<and> Points mesh_new =
                concat (map (\<lambda>f. map (mat_apply (PMatrix P)) (cube_face_points om f))
                         [XPLUS, XMINUS, YPLUS, YMINUS, ZPLUS, ZMINUS]))
         \<and> compute_uv_from_unitcube (vdiv (Vector x y z) 1000) XPLUS = Vector2d (y / 1000) (z / 1000)
         \<and> compute_uv_from_unitcube (vdiv (Vector x y z) 1000) XMINUS = Vector2d (- (y / 1000)) (z / 1000)
         \<and> compute_uv_from_unitcube (vdiv (Vector x y z) 1000) YPLUS = Vector2d (- (x / 1000)) (z / 1000)
         \<and> compute_uv_from_unitcube (vdiv (Vector x y z) 1000) YMINUS = Vector2d (x / 1000) (z / 1000)
         \<and> compute_uv_from_unitcube (vdiv (Vector x y z) 1000) ZPLUS = Vector2d (x / 1000) (y / 1000)
         \<and> compute_uv_from_unitcube (vdiv (Vector x y z) 1000) ZMINUS = Vector2d (x / 1000) (- (y / 1000))
         \<and> compute_uv_from_unitcube (vdiv (Vector 500 500 500) 1000) ZPLUS = Vector2d (1 / 2) (1 / 2)"
proof -
  have "\<exists>mesh_new.
            compute_uvmap_cube self =
              (None, self\<lparr>mesh := mesh_new,
                 uvmap := Some (concat (map (\<lambda>f. map (\<lambda>p. compute_uv_from_unitcube (vdiv p 1000) f)
                                                   (cube_face_points om f))
                                  [XPLUS, XMINUS, YPLUS, YMINUS, ZPLUS, ZMINUS]))\<rparr>)
            \<and> Points mesh_new =
                concat (map (\<lambda>f. map (mat_apply (PMatrix P)) (cube_face_points om f))
                         [XPLUS, XMINUS, YPLUS, YMINUS, ZPLUS, ZMINUS])"
    using compute_uvmap_cube_result [OF assms] by (simp only: UnitCubeFaceEnum_members_def)
  then show ?thesis
    by (simp add: vdiv_def)
qed

theorem compute_uvmap_cube_unfolding_witness:
  "originalmesh (constructed unit_cube null_placement) = Some unit_cube
   \<and> originalplacement (constructed unit_cube null_placement) = Some null_placement
   \<and> fst (compute_uvmap_cube (constructed unit_cube null_placement)) = None
   \<and> Points (mesh (snd (compute_uvmap_cube (constructed unit_cube null_placement)))) =
       [Vector 500 (- 500) (- 500), Vector 500 500 (- 500), Vector 500 500 500, Vector 500 (- 500) 500,
        Vector (- 500) (- 500) (- 500), Vector (- 500) (- 500) 500, Vector (- 500) 500 500, Vector (- 500) 500 (- 500),
        Vector 500 500 (- 500), Vector (- 500) 500 (- 500), Vector (- 500) 500 500, Vector 500 500 500,
        Vector (- 500) (- 500) (- 500), Vector 500 (- 500) (- 500), Vector 500 (- 500) 500, Vector (- 500) (- 500) 500,
        Vector (- 500) (- 500) 500, Vector 500 (- 500) 500, Vector 500 500 500, Vector (- 500) 500 500,
        Vector (- 500) (- 500) (- 500), Vector 500 500 (- 500), Vector 500 (- 500) (- 500), Vector (- 500) 500 (- 500)]
   \<and> uvmap (snd (compute_uvmap_cube (constructed unit_cube null_placement))) =
       Some [Vector2d (- (1 / 2)) (- (1 / 2)), Vector2d (1 / 2) (- (1 / 2)), Vector2d (1 / 2) (1 / 2), Vector2d (- (1 / 2)) (1 / 2),
             Vector2d (1 / 2) (- (1 / 2)), Vector2d (1 / 2) (1 / 2), Vector2d (- (1 / 2)) (1 / 2), Vector2d (- (1 / 2)) (- (1 / 2)),
             Vector2d (- (1 / 2)) (- (1 / 2)), Vector2d (1 / 2) (- (1 / 2)), Vector2d (1 / 2) (1 / 2), Vector2d (- (1 / 2)) (1 / 2),
             Vector2d (- (1 / 2)) (- (1 / 2)), Vector2d (1 / 2) (- (1 / 2)), Vector2d (1 / 2) (1 / 2), Vector2d (- (1 / 2)) (1 / 2),
             Vector2d (- (1 / 2)) (- (1 / 2)), Vector2d (1 / 2) (- (1 / 2)), Vector2d (1 / 2) (1 / 2), Vector2d (- (1 / 2)) (1 / 2),
             Vector2d (- (1 / 2)) (1 / 2), Vector2d (1 / 2) (- (1 / 2)), Vector2d (1 / 2) (1 / 2), Vector2d (- (1 / 2)) (- (1 / 2))]"
proof -
  have om: "originalmesh (constructed unit_cube null_placement) = Some unit_cube"
    by (simp add: constructed_def PMatrix_null_placement transform_unit_matrix)
  have pl: "originalplacement (constructed unit_cube null_placement) = Some null_placement"
    by (simp add: constructed_def)
  from compute_uvmap_cube_unfolding [OF om pl]
  obtain mesh_new where
    res: "compute_uvmap_cube (constructed unit_cube null_placement) =
              (None, (constructed unit_cube null_placement)\<lparr>mesh := mesh_new,
                 uvmap := Some (concat (map (\<lambda>f. map (\<lambda>p. compute_uv_from_unitcube (vdiv p 1000) f)
                                                   (cube_face_points unit_cube f))
                                  [XPLUS, XMINUS, YPLUS, YMINUS, ZPLUS, ZMINUS]))\<rparr>)"
    and pts: "Points mesh_new =
                concat (map (\<lambda>f. map (mat_apply (PMatrix null_placement)) (cube_face_points unit_cube f))
                         [XPLUS, XMINUS, YPLUS, YMINUS, ZPLUS, ZMINUS])"
    by blast
  have faces: "cube_face_points unit_cube XPLUS =
      [Vector 500 (- 500) (- 500), Vector 500 500 (- 500), Vector 500 500 500, Vector 500 (- 500) 500]"
    "cube_face_points unit_cube XMINUS =
      [Vector (- 500) (- 500) (- 500), Vector (- 500) (- 500) 500, Vector (- 500) 500 500, Vector (- 500) 500 (- 500)]"
    "cube_face_points unit_cube YPLUS =
      [Vector 500 500 (- 500), Vector (- 500) 500 (- 500), Vector (- 500) 500 500, Vector 500 500 500]"
    "cube_face_points unit_cube YMINUS =
      [Vector (- 500) (- 500) (- 500), Vector 500 (- 500) (- 500), Vector 500 (- 500) 500, Vector (- 500) (- 500) 500]"
    "cube_face_points unit_cube ZPLUS =
      [Vector (- 500) (- 500) 500, Vector 500 (- 500) 500, Vector 500 500 500, Vector (- 500) 500 500]"
    "cube_face_points unit_cube ZMINUS =
      [Vector (- 500) (- 500) (- 500), Vector 500 500 (- 500), Vector 500 (- 500) (- 500), Vector (- 500) 500 (- 500)]"
    using unit_cube_face_points by simp_all
  have "fst (compute_uvmap_cube (constructed unit_cube null_placement)) = None"
    by (simp add: res)
  moreover have "Points (mesh (snd (compute_uvmap_cube (constructed unit_cube null_placement)))) =
       [Vector 500 (- 500) (- 500), Vector 500 500 (- 500), Vector 500 500 500, Vector 500 (- 500) 500,
        Vector (- 500) (- 500) (- 500), Vector (- 500) (- 500) 500, Vector (- 500) 500 500, Vector (- 500) 500 (- 500),
        Vector 500 500 (- 500), Vector (- 500) 500 (- 500), Vector (- 500) 500 500, Vector 500 500 500,
        Vector (- 500) (- 500) (- 500), Vector 500 (- 500) (- 500), Vector 500 (- 500) 500, Vector (- 500) (- 500) 500,
        Vector (- 500) (- 500) 500, Vector 500 (- 500) 500, Vector 500 500 500, Vector (- 500) 500 500,
        Vector (- 500) (- 500) (- 500), Vector 500 500 (- 500), Vector 500 (- 500) (- 500), Vector (- 500) 500 (- 500)]"
    by (simp add: res pts faces PMatrix_null_placement mat_apply_unit_matrix)
  moreover have "uvmap (snd (compute_uvmap_cube (constructed unit_cube null_placement))) =
       Some [Vector2d (- (1 / 2)) (- (1 / 2)), Vector2d (1 / 2) (- (1 / 2)), Vector2d (1 / 2) (1 / 2), Vector2d (- (1 / 2)) (1 / 2),
             Vector2d (1 / 2) (- (1 / 2)), Vector2d (1 / 2) (1 / 2), Vector2d (- (1 / 2)) (1 / 2), Vector2d (- (1 / 2)) (- (1 / 2)),
             Vector2d (- (1 / 2)) (- (1 / 2)), Vector2d (1 / 2) (- (1 / 2)), Vector2d (1 / 2) (1 / 2), Vector2d (- (1 / 2)) (1 / 2),
             Vector2d (- (1 / 2)) (- (1 / 2)), Vector2d (1 / 2) (- (1 / 2)), Vector2d (1 / 2) (1 / 2), Vector2d (- (1 / 2)) (1 / 2),
             Vector2d (- (1 / 2)) (- (1 / 2)), Vector2d (1 / 2) (- (1 / 2)), Vector2d (1 / 2) (1 / 2), Vector2d (- (1 / 2)) (1 / 2),
             Vector2d (- (1 / 2)) (1 / 2), Vector2d (1 / 2) (- (1 / 2)), Vector2d (1 / 2) (1 / 2), Vector2d (- (1 / 2)) (- (1 / 2))]"
    by (simp add: res faces vdiv_def)
  ultimately show ?thesis
    using om pl by blast
qed

subsection \<open>Dispatch on the projection kind\<close>

text \<open>
  C7.  Without a projection kind, \<open>compute_uvmap\<close> does what it does for \<open>Cubic\<close>, which
  is the cubic strategy.  For a kind other than \<open>Cubic\<close>, \<open>Spherical\<close> and \<open>Cylindric\<close> it
  raises \<open>ValueError\<close> (the invalid-argument error) and the object is as before: no
  strategy has run.
\<close>

theorem compute_uvmap_dispatch:
  "compute_uvmap None self = compute_uvmap (Some ''Cubic'') self
   \<and> compute_uvmap None self = compute_uvmap_cube self
   \<and> (k \<notin> {''Cubic'', ''Spherical'', ''Cylindric''} \<longrightarrow>
        compute_uvmap (Some k) self = (Some ValueError, self))"
  by (simp add: compute_uvmap_def)

theorem compute_uvmap_dispatch_witness:
  "''Planar'' \<notin> {''Cubic'', ''Spherical'', ''Cylindric''}
   \<and> compute_uvmap (Some ''Planar'') (constructed tri_z shift_z)
        = (Some ValueError, constructed tri_z shift_z)
   \<and> compute_uvmap None (constructed tri_z shift_z)
        = compute_uvmap (Some ''Cubic'') (constructed tri_z shift_z)"
proof -
  have k: "''Planar'' \<notin> {''Cubic'', ''Spherical'', ''Cylindric''}" by simp
  with compute_uvmap_dispatch [of "constructed tri_z shift_z" "''Planar''"]
  show ?thesis by blast
qed

subsection \<open>Errors leave the object as it was\<close>

lemma compute_uvmap_cube_error:
  "fst (compute_uvmap_cube self) = Some e \<Longrightarrow> snd (compute_uvmap_cube self) = self"
  by (simp add: compute_uvmap_cube_def Let_def split: option.splits prod.splits)

lemma compute_uvmap_cylinder_error:
  "fst (compute_uvmap_cylinder self) = Some e \<Longrightarrow> snd (compute_uvmap_cylinder self) = self"
  by (auto simp add: compute_uvmap_cylinder_def Let_def split: option.splits sum.splits if_splits)

lemma compute_uvmap_sphere_error:
  "fst (compute_uvmap_sphere self) = Some e \<Longrightarrow> snd (compute_uvmap_sphere self) = self"
  by (simp add: compute_uvmap_sphere_def Let_def split: option.splits sum.splits)

text \<open>
  C9.  Whatever the projection kind, when \<open>compute_uvmap\<close> raises, the object afterwards
  is the object before the call, so its mesh and its UV map are the ones before the
  call: each strategy assigns the attributes only after everything that can raise.
\<close>

theorem compute_uvmap_error_keeps_object:
  assumes "fst (compute_uvmap projection self) = Some e"
  shows "snd (compute_uvmap projection self) = self
         \<and> mesh (snd (compute_uvmap projection self)) = mesh self
         \<and> uvmap (snd (compute_uvmap projection self)) = uvmap self"
proof -
  have "snd (compute_uvmap projection self) = self"
    using assms compute_uvmap_cube_error [of self e] compute_uvmap_cylinder_error [of self e]
      compute_uvmap_sphere_error [of self e]
    by (simp add: compute_uvmap_def Let_def split: if_splits)
  then show ?thesis by simp
qed

lemma caps_only_cylinder:
  "fst (compute_uvmap (Some ''Cylindric'')
          ((constructed tri_z null_placement)\<lparr>uvmap := Some [Vector2d 0 0, Vector2d 1 0, Vector2d 0 1]\<rparr>))
     = Some ZeroDivisionError"
  by (simp add: compute_uvmap_def compute_uvmap_cylinder_def constructed_def tri_z_def
      null_placement_def unit_matrix_def is_facet_normal_to_vector_def normalize_v_def
      isclose_def z_vector_def mesh_eval)

lemma fan_sphere:
  "fst (compute_uvmap (Some ''Spherical'')
          ((constructed fan null_placement)\<lparr>uvmap := Some [Vector2d 0 0, Vector2d 1 0, Vector2d 0 1, Vector2d 1 1, Vector2d 0 0]\<rparr>))
     = Some ZeroDivisionError"
  by (simp add: compute_uvmap_def compute_uvmap_sphere_def constructed_def fan_def
      null_placement_def unit_matrix_def compute_barycenter_def vadd_def sphere_uv_def
      mesh_eval)

theorem compute_uvmap_error_keeps_object_witness:
  "fst (compute_uvmap (Some ''Cylindric'')
          ((constructed tri_z null_placement)\<lparr>uvmap := Some [Vector2d 0 0, Vector2d 1 0, Vector2d 0 1]\<rparr>))
     = Some ZeroDivisionError
   \<and> snd (compute_uvmap (Some ''Cylindric'')
          ((constructed tri_z null_placement)\<lparr>uvmap := Some [Vector2d 0 0, Vector2d 1 0, Vector2d 0 1]\<rparr>))
     = (constructed tri_z null_placement)\<lparr>uvmap := Some [Vector2d 0 0, Vector2d 1 0, Vector2d 0 1]\<rparr>
   \<and> fst (compute_uvmap (Some ''Spherical'')
          ((constructed fan null_placement)\<lparr>uvmap := Some [Vector2d 0 0, Vector2d 1 0, Vector2d 0 1, Vector2d 1 1, Vector2d 0 0]\<rparr>))
     = Some ZeroDivisionError
   \<and> snd (compute_uvmap (Some ''Spherical'')
          ((constructed fan null_placement)\<lparr>uvmap := Some [Vector2d 0 0, Vector2d 1 0, Vector2d 0 1, Vector2d 1 1, Vector2d 0 0]\<rparr>))
     = (constructed fan null_placement)\<lparr>uvmap := Some [Vector2d 0 0, Vector2d 1 0, Vector2d 0 1, Vector2d 1 1, Vector2d 0 0]\<rparr>"
  using compute_uvmap_error_keeps_object [OF caps_only_cylinder]
    compute_uvmap_error_keeps_object [OF fan_sphere] caps_only_cylinder fan_sphere
  by blast

subsection \<open>The cylindric strategy\<close>

lemma two_faces_Facets:
  "Facets two_faces =
     [Facet (Vector 0 0 0, Vector 1 0 0, Vector 0 1 0) (Vector 0 0 1),
      Facet (Vector 0 0 0, Vector 0 0 1, Vector 1 0 0) (Vector 0 1 0)]"
  by (simp add: two_faces_def mesh_eval)

lemma two_faces_shift_z_Facets:
  "Facets (transform (PInverseMatrix shift_z) two_faces) =
     [Facet (Vector 0 0 (- 1000), Vector 1 0 (- 1000), Vector 0 1 (- 1000)) (Vector 0 0 1),
      Facet (Vector 0 0 (- 1000), Vector 0 0 (- 999), Vector 1 0 (- 1000)) (Vector 0 1 0)]"
  by (simp add: two_faces_def shift_z_def mesh_eval)

lemma axis_normal_examples:
  "axis_normal (Facet (Vector 0 0 0, Vector 1 0 0, Vector 0 1 0) n)"
  "\<not> axis_normal (Facet (Vector 0 0 0, Vector 0 0 1, Vector 1 0 0) n)"
  "axis_normal (Facet (Vector 0 0 (- 1000), Vector 1 0 (- 1000), Vector 0 1 (- 1000)) n)"
  "\<not> axis_normal (Facet (Vector 0 0 (- 1000), Vector 0 0 (- 999), Vector 1 0 (- 1000)) n)"
  by (simp_all add: axis_normal_def unit_v_def z_vector_def vsub_def vdiv_def vdot_def vlength_def)

text \<open>
  C5.  On facets none of which has a null edge vector \<open>p2 - p1\<close> or \<open>p3 - p1\<close> (the
  normalisation of the host raises on those), the partition loop of the cylindric
  strategy returns; the regular facets are those that are not axis-normal, the other
  partition holds the axis-normal ones, both in the order of the input, so every facet is
  in exactly one of them and the two sizes add up to the number of facets.  The test of
  the source is the one of the specification: both normalised edge vectors have a dot
  product with the normalised Z axis within \<open>1e-5\<close> of zero.
\<close>

theorem split_facets_partition:
  assumes "\<forall>f \<in> set fs. nondegenerate f"
  shows "\<exists>regular normal.
           split_facets fs ([], []) = Inr (regular, normal)
           \<and> length regular + length normal = length fs
           \<and> regular = filter (\<lambda>f. \<not> axis_normal f) fs
           \<and> normal = filter axis_normal fs
           \<and> (\<forall>f \<in> set fs. (f \<in> set normal \<longleftrightarrow> axis_normal f)
                            \<and> (f \<in> set regular \<longleftrightarrow> \<not> axis_normal f)
                            \<and> is_facet_normal_to_vector f z_vector = Inr (axis_normal f))"
proof -
  have len: "length (filter (\<lambda>f. \<not> axis_normal f) fs) + length (filter axis_normal fs) = length fs"
    using sum_length_filter_compl [of axis_normal fs] by simp
  have each: "\<forall>f \<in> set fs. is_facet_normal_to_vector f z_vector = Inr (axis_normal f)"
    using assms by (simp add: is_facet_normal_to_vector_nondegenerate)
  show ?thesis
    using split_facets_nondegenerate [OF assms] len each by simp
qed

theorem split_facets_partition_witness:
  "list_all nondegenerate (Facets two_faces)
   \<and> split_facets (Facets two_faces) ([], []) =
       Inr ([Facet (Vector 0 0 0, Vector 0 0 1, Vector 1 0 0) (Vector 0 1 0)],
            [Facet (Vector 0 0 0, Vector 1 0 0, Vector 0 1 0) (Vector 0 0 1)])"
proof -
  have nd: "\<forall>f \<in> set (Facets two_faces). nondegenerate f"
    by (simp add: two_faces_Facets nondegenerate_def)
  from split_facets_partition [OF nd]
  have "split_facets (Facets two_faces) ([], []) =
          Inr (filter (\<lambda>f. \<not> axis_normal f) (Facets two_faces),
               filter axis_normal (Facets two_faces))"
    by auto
  then have "split_facets (Facets two_faces) ([], []) =
       Inr ([Facet (Vector 0 0 0, Vector 0 0 1, Vector 1 0 0) (Vector 0 1 0)],
            [Facet (Vector 0 0 0, Vector 1 0 0, Vector 0 1 0) (Vector 0 0 1)])"
    by (simp add: two_faces_Facets axis_normal_examples)
  moreover from nd have "list_all nondegenerate (Facets two_faces)"
    by (simp add: list_all_iff)
  ultimately show ?thesis by blast
qed

text \<open>
  C4.  On an object whose original mesh and placement are set, whose facets have no null
  edge vector and whose regular sub-mesh has a point, the cylindric strategy returns.
  With the average radius the arithmetic mean of \<open>hypot(x, y)\<close> over the points of the
  regular sub-mesh, the UV map is \<open>(atan2(x, y) * avgRadius, z) * 0.001\<close> for every
  regular point followed by \<open>(x / 1000, y / 1000)\<close> for every axis-normal point, and the
  points of the new mesh are the regular points, then the axis-normal points, each placed
  by the original placement.
\<close>

theorem compute_uvmap_cylinder_unfolding:
  assumes "originalmesh self = Some om" and "originalplacement self = Some P"
    and "\<forall>f \<in> set (Facets om). nondegenerate f"
    and "regular_points om \<noteq> []"
  shows "(\<exists>mesh_new.
           compute_uvmap_cylinder self =
             (None, self\<lparr>mesh := mesh_new,
                uvmap := Some (map (\<lambda>p. Vector2d (atan2 (vx p) (vy p) * avg_radius (regular_points om) * (1 / 1000))
                                                 (vz p * (1 / 1000))) (regular_points om)
                               @ map (\<lambda>p. Vector2d (vx p / 1000) (vy p / 1000)) (axis_normal_points om))\<rparr>)
           \<and> Points mesh_new = map (mat_apply (PMatrix P)) (regular_points om)
                                 @ map (mat_apply (PMatrix P)) (axis_normal_points om))
         \<and> avg_radius (regular_points om) * real (length (regular_points om))
             = (\<Sum>p\<leftarrow>regular_points om. sqrt (vx p * vx p + vy p * vy p))"
proof -
  from assms(4) have "real (length (regular_points om)) \<noteq> 0" by simp
  then have "avg_radius (regular_points om) * real (length (regular_points om))
             = (\<Sum>p\<leftarrow>regular_points om. sqrt (vx p * vx p + vy p * vy p))"
    by (simp add: avg_radius_def hypot_def)
  with compute_uvmap_cylinder_result [OF assms] show ?thesis by blast
qed

lemma two_faces_shift_z_points:
  "regular_points (transform (PInverseMatrix shift_z) two_faces) =
     [Vector 0 0 (- 1000), Vector 0 0 (- 999), Vector 1 0 (- 1000)]"
  "axis_normal_points (transform (PInverseMatrix shift_z) two_faces) =
     [Vector 0 0 (- 1000), Vector 1 0 (- 1000), Vector 0 1 (- 1000)]"
  by (simp_all add: regular_points_def axis_normal_points_def two_faces_shift_z_Facets
      axis_normal_examples mesh_of_facets_def add_facet_def add_point_def empty_mesh_def)

theorem compute_uvmap_cylinder_unfolding_witness:
  "originalmesh (constructed two_faces shift_z) = Some (transform (PInverseMatrix shift_z) two_faces)
   \<and> originalplacement (constructed two_faces shift_z) = Some shift_z
   \<and> list_all nondegenerate (Facets (transform (PInverseMatrix shift_z) two_faces))
   \<and> regular_points (transform (PInverseMatrix shift_z) two_faces) \<noteq> []
   \<and> avg_radius (regular_points (transform (PInverseMatrix shift_z) two_faces)) = 1 / 3
   \<and> fst (compute_uvmap_cylinder (constructed two_faces shift_z)) = None
   \<and> uvmap (snd (compute_uvmap_cylinder (constructed two_faces shift_z))) =
       Some [Vector2d 0 (- 1), Vector2d 0 (- (999 / 1000)), Vector2d (pi / 6000) (- 1),
             Vector2d 0 0, Vector2d (1 / 1000) 0, Vector2d 0 (1 / 1000)]
   \<and> Points (mesh (snd (compute_uvmap_cylinder (constructed two_faces shift_z)))) =
       [Vector 0 0 0, Vector 0 0 1, Vector 1 0 0, Vector 0 0 0, Vector 1 0 0, Vector 0 1 0]"
proof -
  let ?om = "transform (PInverseMatrix shift_z) two_faces"
  have om: "originalmesh (constructed two_faces shift_z) = Some ?om"
    and pl: "originalplacement (constructed two_faces shift_z) = Some shift_z"
    by (simp_all add: constructed_def)
  have nd: "\<forall>f \<in> set (Facets ?om). nondegenerate f"
    by (simp add: two_faces_shift_z_Facets nondegenerate_def)
  have ne: "regular_points ?om \<noteq> []"
    by (simp add: two_faces_shift_z_points)
  have avg_list: "avg_radius [Vector 0 0 (- 1000), Vector 0 0 (- 999), Vector 1 0 (- 1000)] = 1 / 3"
    by (simp add: avg_radius_def hypot_def)
  then have avg: "avg_radius (regular_points ?om) = 1 / 3"
    by (simp add: two_faces_shift_z_points)
  from compute_uvmap_cylinder_unfolding [OF om pl nd ne]
  obtain mesh_new where
    res: "compute_uvmap_cylinder (constructed two_faces shift_z) =
             (None, (constructed two_faces shift_z)\<lparr>mesh := mesh_new,
                uvmap := Some (map (\<lambda>p. Vector2d (atan2 (vx p) (vy p) * avg_radius (regular_points ?om) * (1 / 1000))
                                                 (vz p * (1 / 1000))) (regular_points ?om)
                               @ map (\<lambda>p. Vector2d (vx p / 1000) (vy p / 1000)) (axis_normal_points ?om))\<rparr>)"
    and pts: "Points mesh_new = map (mat_apply (PMatrix shift_z)) (regular_points ?om)
                                 @ map (mat_apply (PMatrix shift_z)) (axis_normal_points ?om)"
    by blast
  have "fst (compute_uvmap_cylinder (constructed two_faces shift_z)) = None"
    by (simp add: res)
  moreover have "uvmap (snd (compute_uvmap_cylinder (constructed two_faces shift_z))) =
       Some [Vector2d 0 (- 1), Vector2d 0 (- (999 / 1000)), Vector2d (pi / 6000) (- 1),
             Vector2d 0 0, Vector2d (1 / 1000) 0, Vector2d 0 (1 / 1000)]"
    by (simp add: res avg_list two_faces_shift_z_points atan2_def)
  moreover have "Points (mesh (snd (compute_uvmap_cylinder (constructed two_faces shift_z)))) =
       [Vector 0 0 0, Vector 0 0 1, Vector 1 0 0, Vector 0 0 0, Vector 1 0 0, Vector 0 1 0]"
    by (simp add: res pts two_faces_shift_z_points PMatrix_shift_z mat_apply_def vdot_def)
  moreover from nd have "list_all nondegenerate (Facets ?om)"
    by (simp add: list_all_iff)
  ultimately show ?thesis
    using om pl ne avg by blast
qed

subsection \<open>The spherical strategy\<close>

lemma constructed_null_placement:
  "constructed m null_placement =
     \<lparr>mesh = m, originalmesh = Some m, originalplacement = Some null_placement, uvmap = None\<rparr>"
  by (simp add: constructed_def PMatrix_null_placement transform_unit_matrix)

lemma two_faces_barycenter:
  "compute_barycenter (Points two_faces) = Vector (1 / 4) (1 / 4) (1 / 4)"
  by (simp add: two_faces_def compute_barycenter_def vadd_def vdiv_def)

text \<open>
  C6.  On an object whose original mesh is set and has no point at its barycenter, the
  spherical strategy returns, and the UV map holds for every point \<open>p\<close> of the original
  (unplaced) mesh, in order, with \<open>v = p - barycenter\<close>, the coordinate
  \<open>(0.5 + atan2(v.x, v.y) / (2 pi), 0.5 + asin(v.z / |v|) / pi)\<close> with both components
  multiplied by \<open>(|v| / 1000) * pi\<close>.  The barycenter is the arithmetic mean of the
  points, and the origin when there is no point.
\<close>

theorem compute_uvmap_sphere_formula:
  assumes "originalmesh self = Some om"
    and "\<forall>p \<in> set (Points om). 0 < vlength (vsub p (compute_barycenter (Points om)))"
  shows "compute_uvmap_sphere self =
           (None, self\<lparr>uvmap := Some (map (\<lambda>p. sphere_projection (vsub p (compute_barycenter (Points om))))
                                        (Points om))\<rparr>)
         \<and> sphere_projection v =
             uv_scale (Vector2d (1 / 2 + atan2 (vx v) (vy v) / (2 * pi))
                                (1 / 2 + arcsin (vz v / sqrt (vx v * vx v + vy v * vy v + vz v * vz v)) / pi))
                      (sqrt (vx v * vx v + vy v * vy v + vz v * vz v) / 1000 * pi)
         \<and> compute_barycenter (Points om) =
             (if Points om = [] then Vector 0 0 0
              else Vector (sum_list (map vx (Points om)) / real (length (Points om)))
                          (sum_list (map vy (Points om)) / real (length (Points om)))
                          (sum_list (map vz (Points om)) / real (length (Points om))))"
proof -
  from assms(2)
  have "\<forall>p \<in> set (Points om). vlength (vsub p (compute_barycenter (Points om))) \<noteq> 0"
    by auto
  then have "compute_uvmap_sphere self =
           (None, self\<lparr>uvmap := Some (map (\<lambda>p. sphere_projection (vsub p (compute_barycenter (Points om))))
                                        (Points om))\<rparr>)"
    by (simp add: compute_uvmap_sphere_result [OF assms(1)])
  moreover have "sphere_projection v =
             uv_scale (Vector2d (1 / 2 + atan2 (vx v) (vy v) / (2 * pi))
                                (1 / 2 + arcsin (vz v / sqrt (vx v * vx v + vy v * vy v + vz v * vz v)) / pi))
                      (sqrt (vx v * vx v + vy v * vy v + vz v * vz v) / 1000 * pi)"
    by (simp add: sphere_projection_def uv_scale_def vlength_def)
  moreover have "compute_barycenter (Points om) =
             (if Points om = [] then Vector 0 0 0
              else Vector (sum_list (map vx (Points om)) / real (length (Points om)))
                          (sum_list (map vy (Points om)) / real (length (Points om)))
                          (sum_list (map vz (Points om)) / real (length (Points om))))"
    by (simp add: compute_barycenter_mean mean_point_def)
  ultimately show ?thesis by blast
qed

theorem compute_uvmap_sphere_formula_witness:
  "originalmesh (constructed two_faces null_placement) = Some two_faces
   \<and> list_all (\<lambda>p. 0 < vlength (vsub p (compute_barycenter (Points two_faces))))
         (Points two_faces)
   \<and> compute_uvmap_sphere (constructed two_faces null_placement) =
       (None, (constructed two_faces null_placement)
          \<lparr>uvmap := Some [sphere_projection (Vector (- (1 / 4)) (- (1 / 4)) (- (1 / 4))),
                          sphere_projection (Vector (3 / 4) (- (1 / 4)) (- (1 / 4))),
                          sphere_projection (Vector (- (1 / 4)) (3 / 4) (- (1 / 4))),
                          sphere_projection (Vector (- (1 / 4)) (- (1 / 4)) (3 / 4))]\<rparr>)"
proof -
  have om: "originalmesh (constructed two_faces null_placement) = Some two_faces"
    by (simp add: constructed_null_placement)
  have pos: "\<forall>p \<in> set (Points two_faces). 0 < vlength (vsub p (compute_barycenter (Points two_faces)))"
    unfolding two_faces_barycenter by (simp add: two_faces_def vsub_def vlength_def)
  from compute_uvmap_sphere_formula [OF om pos]
  have "compute_uvmap_sphere (constructed two_faces null_placement) =
           (None, (constructed two_faces null_placement)
              \<lparr>uvmap := Some (map (\<lambda>p. sphere_projection (vsub p (compute_barycenter (Points two_faces))))
                                        (Points two_faces))\<rparr>)"
    by blast
  then have "compute_uvmap_sphere (constructed two_faces null_placement) =
       (None, (constructed two_faces null_placement)
          \<lparr>uvmap := Some [sphere_projection (Vector (- (1 / 4)) (- (1 / 4)) (- (1 / 4))),
                          sphere_projection (Vector (3 / 4) (- (1 / 4)) (- (1 / 4))),
                          sphere_projection (Vector (- (1 / 4)) (3 / 4) (- (1 / 4))),
                          sphere_projection (Vector (- (1 / 4)) (- (1 / 4)) (3 / 4))]\<rparr>)"
    unfolding two_faces_barycenter by (simp add: two_faces_def vsub_def)
  moreover from pos
  have "list_all (\<lambda>p. 0 < vlength (vsub p (compute_barycenter (Points two_faces))))
          (Points two_faces)"
    by (simp add: list_all_iff)
  ultimately show ?thesis using om by blast
qed

lemma two_faces_cube_points:
  "cube_face_points two_faces XPLUS = []" "cube_face_points two_faces XMINUS = []"
  "cube_face_points two_faces YPLUS = [Vector 0 0 0, Vector 0 0 1, Vector 1 0 0]"
  "cube_face_points two_faces YMINUS = []"
  "cube_face_points two_faces ZPLUS = [Vector 0 0 0, Vector 1 0 0, Vector 0 1 0]"
  "cube_face_points two_faces ZMINUS = []"
  by (simp_all add: cube_face_points_def two_faces_Facets intersect_unitcube_face_def
      mesh_of_facets_def add_facet_def add_point_def empty_mesh_def)

lemma two_faces_cube_mesh_points:
  "Points (mesh (snd (compute_uvmap_cube (constructed two_faces null_placement)))) =
     [Vector 0 0 0, Vector 0 0 1, Vector 1 0 0, Vector 0 0 0, Vector 1 0 0, Vector 0 1 0]"
proof -
  have "originalmesh (constructed two_faces null_placement) = Some two_faces"
    and "originalplacement (constructed two_faces null_placement) = Some null_placement"
    by (simp_all add: constructed_null_placement)
  from compute_uvmap_cube_result [OF this] show ?thesis
    by (auto simp add: UnitCubeFaceEnum_members_def two_faces_cube_points
        PMatrix_null_placement mat_apply_unit_matrix)
qed

lemma two_faces_regular_points:
  "regular_points two_faces = [Vector 0 0 0, Vector 0 0 1, Vector 1 0 0]"
  "axis_normal_points two_faces = [Vector 0 0 0, Vector 1 0 0, Vector 0 1 0]"
  by (simp_all add: regular_points_def axis_normal_points_def two_faces_Facets
      axis_normal_examples mesh_of_facets_def add_facet_def add_point_def empty_mesh_def)

lemma two_faces_cylinder_mesh_points:
  "Points (mesh (snd (compute_uvmap_cylinder (constructed two_faces null_placement)))) =
     [Vector 0 0 0, Vector 0 0 1, Vector 1 0 0, Vector 0 0 0, Vector 1 0 0, Vector 0 1 0]"
proof -
  have "originalmesh (constructed two_faces null_placement) = Some two_faces"
    and "originalplacement (constructed two_faces null_placement) = Some null_placement"
    and "\<forall>f \<in> set (Facets two_faces). nondegenerate f"
    and "regular_points two_faces \<noteq> []"
    by (simp_all add: constructed_null_placement two_faces_Facets nondegenerate_def
        two_faces_regular_points)
  from compute_uvmap_cylinder_result [OF this] show ?thesis
    by (auto simp add: two_faces_regular_points PMatrix_null_placement mat_apply_unit_matrix)
qed

text \<open>
  C8.  The spherical strategy changes no attribute other than the UV map: the owned
  mesh, the original mesh and the original placement after the call are those before,
  whether it returns or raises.  It does not read the original placement: with another
  placement in its place the outcome and the UV map are the same.  The cubic and the
  cylindric strategies do replace the owned mesh; on the two-triangle example the mesh
  of four points becomes one of six.
\<close>

theorem compute_uvmap_sphere_frame:
  "(\<exists>uvs. snd (compute_uvmap_sphere self) = self\<lparr>uvmap := uvs\<rparr>)
   \<and> mesh (snd (compute_uvmap_sphere self)) = mesh self
   \<and> originalmesh (snd (compute_uvmap_sphere self)) = originalmesh self
   \<and> originalplacement (snd (compute_uvmap_sphere self)) = originalplacement self
   \<and> fst (compute_uvmap_sphere (self\<lparr>originalplacement := q\<rparr>)) = fst (compute_uvmap_sphere self)
   \<and> uvmap (snd (compute_uvmap_sphere (self\<lparr>originalplacement := q\<rparr>)))
       = uvmap (snd (compute_uvmap_sphere self))
   \<and> Points (mesh (constructed two_faces null_placement)) =
       [Vector 0 0 0, Vector 1 0 0, Vector 0 1 0, Vector 0 0 1]
   \<and> Points (mesh (snd (compute_uvmap_cube (constructed two_faces null_placement)))) =
       [Vector 0 0 0, Vector 0 0 1, Vector 1 0 0, Vector 0 0 0, Vector 1 0 0, Vector 0 1 0]
   \<and> Points (mesh (snd (compute_uvmap_cylinder (constructed two_faces null_placement)))) =
       [Vector 0 0 0, Vector 0 0 1, Vector 1 0 0, Vector 0 0 0, Vector 1 0 0, Vector 0 1 0]"
proof -
  have upd: "\<exists>uvs. snd (compute_uvmap_sphere self) = self\<lparr>uvmap := uvs\<rparr>"
  proof (cases "fst (compute_uvmap_sphere self)")
    case None
    then show ?thesis
      by (auto simp add: compute_uvmap_sphere_def Let_def split: option.splits sum.splits)
  next
    case (Some e)
    then have "snd (compute_uvmap_sphere self) = self\<lparr>uvmap := uvmap self\<rparr>"
      by (simp add: compute_uvmap_sphere_error)
    then show ?thesis by blast
  qed
  then obtain uvs where "snd (compute_uvmap_sphere self) = self\<lparr>uvmap := uvs\<rparr>"
    by blast
  then have same: "mesh (snd (compute_uvmap_sphere self)) = mesh self"
    "originalmesh (snd (compute_uvmap_sphere self)) = originalmesh self"
    "originalplacement (snd (compute_uvmap_sphere self)) = originalplacement self"
    by simp_all
  have indep: "fst (compute_uvmap_sphere (self\<lparr>originalplacement := q\<rparr>)) = fst (compute_uvmap_sphere self)"
    "uvmap (snd (compute_uvmap_sphere (self\<lparr>originalplacement := q\<rparr>)))
       = uvmap (snd (compute_uvmap_sphere self))"
    by (simp_all add: compute_uvmap_sphere_def Let_def split: option.splits sum.splits)
  have start: "Points (mesh (constructed two_faces null_placement)) =
       [Vector 0 0 0, Vector 1 0 0, Vector 0 1 0, Vector 0 0 1]"
    by (simp add: constructed_def two_faces_def)
  from upd same indep start two_faces_cube_mesh_points two_faces_cylinder_mesh_points
  show ?thesis by blast
qed

theorem compute_uvmap_sphere_frame_witness:
  "mesh (snd (compute_uvmap_sphere (constructed two_faces shift_z))) = two_faces
   \<and> originalplacement (snd (compute_uvmap_sphere (constructed two_faces shift_z))) = Some shift_z
   \<and> uvmap (snd (compute_uvmap_sphere ((constructed two_faces shift_z)\<lparr>originalplacement := None\<rparr>)))
       = uvmap (snd (compute_uvmap_sphere (constructed two_faces shift_z)))"
  using compute_uvmap_sphere_frame [of "constructed two_faces shift_z" None]
  by (simp add: constructed_def)

subsection \<open>Copies\<close>

lemmas strategy_eval =
  compute_uvmap_def compute_uvmap_cube_def compute_uvmap_cylinder_def classify_facets_def
  cube_rebuild_step_def UnitCubeFaceEnum_members_def is_facet_normal_to_vector_def
  normalize_v_def isclose_def z_vector_def hypot_def atan2_def uv_scale_def

lemma tri_z_shift_z_cubic:
  "compute_uvmap (Some ''Cubic'') (constructed tri_z shift_z) =
     (None, (constructed tri_z shift_z)
        \<lparr>mesh := tri_z, uvmap := Some [Vector2d 0 0, Vector2d (1 / 1000) 0, Vector2d 0 (1 / 1000)]\<rparr>)"
  by (simp add: constructed_def tri_z_def shift_z_def null_placement_def unit_matrix_def
      strategy_eval mesh_eval)

lemma tri_z_null_cubic:
  "compute_uvmap (Some ''Cubic'') (constructed tri_z null_placement) =
     (None, (constructed tri_z null_placement)
        \<lparr>mesh := tri_z, uvmap := Some [Vector2d 0 0, Vector2d (1 / 1000) 0, Vector2d 0 (1 / 1000)]\<rparr>)"
  by (simp add: constructed_def tri_z_def null_placement_def unit_matrix_def
      strategy_eval mesh_eval)

lemma two_faces_turned_cubic:
  "compute_uvmap (Some ''Cubic'') (constructed two_faces turn_y_shift_x) =
     (None, (constructed two_faces turn_y_shift_x)
        \<lparr>mesh := \<lparr>Points = [Vector 0 0 0, Vector 1 0 0, Vector 0 1 0,
                            Vector 0 0 0, Vector 0 0 1, Vector 1 0 0],
                  FacetIndices = [(0, 1, 2), (3, 4, 5)], MeshPlacement = null_placement\<rparr>,
          uvmap := Some [Vector2d 0 (- 1), Vector2d 0 (- (999 / 1000)), Vector2d (- (1 / 1000)) (- 1),
                         Vector2d 0 (- 1), Vector2d (1 / 1000) (- 1), Vector2d 0 (- (999 / 1000))]\<rparr>)"
  by (simp add: constructed_def two_faces_def turn_y_shift_x_def null_placement_def
      unit_matrix_def strategy_eval mesh_eval)

lemma two_faces_null_cubic:
  "compute_uvmap (Some ''Cubic'') (constructed two_faces null_placement) =
     (None, (constructed two_faces null_placement)
        \<lparr>mesh := \<lparr>Points = [Vector 0 0 0, Vector 0 0 1, Vector 1 0 0,
                            Vector 0 0 0, Vector 1 0 0, Vector 0 1 0],
                  FacetIndices = [(0, 1, 2), (3, 4, 5)], MeshPlacement = null_placement\<rparr>,
          uvmap := Some [Vector2d 0 0, Vector2d 0 (1 / 1000), Vector2d (- (1 / 1000)) 0,
                         Vector2d 0 0, Vector2d (1 / 1000) 0, Vector2d 0 (1 / 1000)]\<rparr>)"
  by (simp add: constructed_def two_faces_def null_placement_def unit_matrix_def
      strategy_eval mesh_eval)

lemma two_faces_turned_cylindric:
  "compute_uvmap (Some ''Cylindric'') (constructed two_faces turn_y_shift_x) =
     (None, (constructed two_faces turn_y_shift_x)
        \<lparr>mesh := \<lparr>Points = [Vector 0 0 0, Vector 1 0 0, Vector 0 1 0, Vector 0 0 1],
                  FacetIndices = [(0, 1, 2), (0, 3, 1)], MeshPlacement = null_placement\<rparr>,
          uvmap := Some [Vector2d 0 (- 1), Vector2d 0 (- (999 / 1000)), Vector2d 0 (- 1),
                         Vector2d (- (pi / 4000)) (- 1)]\<rparr>)"
  by (simp add: constructed_def two_faces_def turn_y_shift_x_def null_placement_def
      unit_matrix_def strategy_eval mesh_eval)

lemma two_faces_null_cylindric:
  "compute_uvmap (Some ''Cylindric'') (constructed two_faces null_placement) =
     (None, (constructed two_faces null_placement)
        \<lparr>mesh := \<lparr>Points = [Vector 0 0 0, Vector 0 0 1, Vector 1 0 0,
                            Vector 0 0 0, Vector 1 0 0, Vector 0 1 0],
                  FacetIndices = [(0, 1, 2), (3, 4, 5)], MeshPlacement = null_placement\<rparr>,
          uvmap := Some [Vector2d 0 0, Vector2d 0 (1 / 1000), Vector2d (pi / 6000) 0,
                         Vector2d 0 0, Vector2d (1 / 1000) 0, Vector2d 0 (1 / 1000)]\<rparr>)"
  by (simp add: constructed_def two_faces_def null_placement_def unit_matrix_def
      strategy_eval mesh_eval)

lemma copy_constructed:
  assumes "MeshPlacement m = null_placement"
  shows "copy (constructed m P) = Inr (constructed m null_placement)"
proof -
  have "copy (constructed m P) = RenderingMesh_init (Some m) None null_placement"
    by (simp add: copy_def mesh_copy_def constructed_def)
  with constructed_init [OF assms, of null_placement] show ?thesis by simp
qed

text \<open>
  C10.  An object constructed from a mesh with a placement keeps that mesh, the mesh
  moved by the inverse placement as its original mesh, and the placement.  Its copy is
  the object the constructor builds from the same mesh and UV map with no placement: the
  original placement of the copy is the null placement and its original mesh is the
  current mesh.  The strategies on the copy therefore project the placed points.  With
  the cubic and with the cylindric strategy the mesh and the UV map computed on the copy
  can differ from those computed on the original, as they do for the two triangles placed
  by a quarter turn about Y and a translation along X.
\<close>

theorem copy_drops_placement:
  assumes "RenderingMesh_init (Some m) uv P = Inr self"
  shows "copy self = RenderingMesh_init (Some m) uv null_placement
         \<and> copy self = Inr \<lparr>mesh = m, originalmesh = Some m,
                             originalplacement = Some null_placement, uvmap = uv\<rparr>
         \<and> self = \<lparr>mesh = m, originalmesh = Some (transform (PInverseMatrix P) m),
                    originalplacement = Some P, uvmap = uv\<rparr>
         \<and> RenderingMesh_init (Some two_faces) None turn_y_shift_x
             = Inr (constructed two_faces turn_y_shift_x)
         \<and> copy (constructed two_faces turn_y_shift_x) = Inr (constructed two_faces null_placement)
         \<and> mesh (snd (compute_uvmap (Some ''Cubic'') (constructed two_faces turn_y_shift_x)))
             \<noteq> mesh (snd (compute_uvmap (Some ''Cubic'') (constructed two_faces null_placement)))
         \<and> uvmap (snd (compute_uvmap (Some ''Cubic'') (constructed two_faces turn_y_shift_x)))
             \<noteq> uvmap (snd (compute_uvmap (Some ''Cubic'') (constructed two_faces null_placement)))
         \<and> mesh (snd (compute_uvmap (Some ''Cylindric'') (constructed two_faces turn_y_shift_x)))
             \<noteq> mesh (snd (compute_uvmap (Some ''Cylindric'') (constructed two_faces null_placement)))
         \<and> uvmap (snd (compute_uvmap (Some ''Cylindric'') (constructed two_faces turn_y_shift_x)))
             \<noteq> uvmap (snd (compute_uvmap (Some ''Cylindric'') (constructed two_faces null_placement)))"
proof -
  from assms have mp: "MeshPlacement m = null_placement"
    by (simp add: RenderingMesh_init_def split: if_splits)
  from assms mp have self:
    "self = \<lparr>mesh = m, originalmesh = Some (transform (PInverseMatrix P) m),
             originalplacement = Some P, uvmap = uv\<rparr>"
    by (simp add: RenderingMesh_init_def placement_inverse_def mesh_copy_def)
  have c1: "copy self = RenderingMesh_init (Some m) uv null_placement"
    by (simp add: copy_def self mesh_copy_def)
  have c2: "copy self = Inr \<lparr>mesh = m, originalmesh = Some m,
                             originalplacement = Some null_placement, uvmap = uv\<rparr>"
    using mp
    by (simp add: c1 RenderingMesh_init_def placement_inverse_def mesh_copy_def
        PMatrix_null_placement transform_unit_matrix)
  have tf: "MeshPlacement two_faces = null_placement"
    by (simp add: two_faces_def)
  have e1: "RenderingMesh_init (Some two_faces) None turn_y_shift_x
             = Inr (constructed two_faces turn_y_shift_x)"
    by (rule constructed_init [OF tf])
  have e2: "copy (constructed two_faces turn_y_shift_x) = Inr (constructed two_faces null_placement)"
    by (rule copy_constructed [OF tf])
  have d1: "mesh (snd (compute_uvmap (Some ''Cubic'') (constructed two_faces turn_y_shift_x)))
             \<noteq> mesh (snd (compute_uvmap (Some ''Cubic'') (constructed two_faces null_placement)))"
    by (simp add: two_faces_turned_cubic two_faces_null_cubic)
  have d2: "uvmap (snd (compute_uvmap (Some ''Cubic'') (constructed two_faces turn_y_shift_x)))
             \<noteq> uvmap (snd (compute_uvmap (Some ''Cubic'') (constructed two_faces null_placement)))"
    by (simp add: two_faces_turned_cubic two_faces_null_cubic)
  have d3: "mesh (snd (compute_uvmap (Some ''Cylindric'') (constructed two_faces turn_y_shift_x)))
             \<noteq> mesh (snd (compute_uvmap (Some ''Cylindric'') (constructed two_faces null_placement)))"
    by (simp add: two_faces_turned_cylindric two_faces_null_cylindric)
  have d4: "uvmap (snd (compute_uvmap (Some ''Cylindric'') (constructed two_faces turn_y_shift_x)))
             \<noteq> uvmap (snd (compute_uvmap (Some ''Cylindric'') (constructed two_faces null_placement)))"
    by (simp add: two_faces_turned_cylindric two_faces_null_cylindric)
  from c1 c2 self e1 e2 d1 d2 d3 d4 show ?thesis by blast
qed

theorem copy_drops_placement_witness:
  "RenderingMesh_init (Some tri_z) None shift_z = Inr (constructed tri_z shift_z)
   \<and> copy (constructed tri_z shift_z) = RenderingMesh_init (Some tri_z) None null_placement
   \<and> copy (constructed tri_z shift_z) =
       Inr \<lparr>mesh = tri_z, originalmesh = Some tri_z,
            originalplacement = Some null_placement, uvmap = None\<rparr>"
proof -
  have init: "RenderingMesh_init (Some tri_z) None shift_z = Inr (constructed tri_z shift_z)"
    by (rule constructed_init) (simp add: tri_z_def)
  from copy_drops_placement [OF init] init show ?thesis by blast
qed

text \<open>
  C10, as stated, fails: the results on the copy need not differ from those on the
  original.  For the triangle facing \<open>+Z\<close>, placed by the translation along Z, which is
  not the null placement, the cubic strategy returns the same mesh and the same UV map
  on both.
\<close>

theorem copy_same_result_counterexample:
  "shift_z \<noteq> null_placement
   \<and> RenderingMesh_init (Some tri_z) None shift_z = Inr (constructed tri_z shift_z)
   \<and> copy (constructed tri_z shift_z) = Inr (constructed tri_z null_placement)
   \<and> fst (compute_uvmap (Some ''Cubic'') (constructed tri_z shift_z)) = None
   \<and> fst (compute_uvmap (Some ''Cubic'') (constructed tri_z null_placement)) = None
   \<and> mesh (snd (compute_uvmap (Some ''Cubic'') (constructed tri_z null_placement)))
       = mesh (snd (compute_uvmap (Some ''Cubic'') (constructed tri_z shift_z)))
   \<and> uvmap (snd (compute_uvmap (Some ''Cubic'') (constructed tri_z null_placement)))
       = uvmap (snd (compute_uvmap (Some ''Cubic'') (constructed tri_z shift_z)))"
proof -
  have tz: "MeshPlacement tri_z = null_placement"
    by (simp add: tri_z_def)
  have "shift_z \<noteq> null_placement"
    by (simp add: shift_z_def null_placement_def unit_matrix_def)
  moreover note constructed_init [OF tz, of shift_z] copy_constructed [OF tz, of shift_z]
  moreover have "fst (compute_uvmap (Some ''Cubic'') (constructed tri_z shift_z)) = None"
    "fst (compute_uvmap (Some ''Cubic'') (constructed tri_z null_placement)) = None"
    "mesh (snd (compute_uvmap (Some ''Cubic'') (constructed tri_z null_placement)))
       = mesh (snd (compute_uvmap (Some ''Cubic'') (constructed tri_z shift_z)))"
    "uvmap (snd (compute_uvmap (Some ''Cubic'') (constructed tri_z null_placement)))
       = uvmap (snd (compute_uvmap (Some ''Cubic'') (constructed tri_z shift_z)))"
    by (simp_all add: tri_z_shift_z_cubic tri_z_null_cubic)
  ultimately show ?thesis by blast
qed

subsection \<open>Index alignment of the UV map\<close>

lemma compute_uvmap_cube_success:
  assumes "fst (compute_uvmap_cube self) = None"
  shows "\<exists>om P. originalmesh self = Some om \<and> originalplacement self = Some P"
  using assms
  by (cases "originalmesh self"; cases "originalplacement self")
     (simp_all add: compute_uvmap_cube_def Let_def)

lemma compute_uvmap_cylinder_success:
  assumes "fst (compute_uvmap_cylinder self) = None"
  shows "\<exists>om P. originalmesh self = Some om \<and> originalplacement self = Some P
           \<and> (\<forall>f \<in> set (Facets om). nondegenerate f) \<and> regular_points om \<noteq> []"
proof -
  from assms obtain om where om: "originalmesh self = Some om"
    by (cases "originalmesh self") (simp_all add: compute_uvmap_cylinder_def)
  have nd: "\<forall>f \<in> set (Facets om). nondegenerate f"
  proof (rule ccontr)
    assume "\<not> (\<forall>f \<in> set (Facets om). nondegenerate f)"
    from split_facets_degenerate [OF this, of "([], [])"] assms om show False
      by (simp add: compute_uvmap_cylinder_def)
  qed
  have ne: "regular_points om \<noteq> []"
  proof
    assume "regular_points om = []"
    with assms om show False
      by (simp add: compute_uvmap_cylinder_def split_facets_nondegenerate [OF nd]
          regular_points_def)
  qed
  from assms om ne obtain P where "originalplacement self = Some P"
    by (cases "originalplacement self")
       (simp_all add: compute_uvmap_cylinder_def split_facets_nondegenerate [OF nd]
          regular_points_def Let_def)
  with om nd ne show ?thesis by blast
qed

lemma compute_uvmap_sphere_success:
  assumes "compute_uvmap_sphere self = (None, self')" and "originalmesh self = Some om"
  shows "self' = self\<lparr>uvmap := Some (map (\<lambda>p. sphere_projection (vsub p (compute_barycenter (Points om))))
                                       (Points om))\<rparr>"
  using assms(1) unfolding compute_uvmap_sphere_result [OF assms(2)]
  by (simp split: if_splits)

lemma map_fst_tagged:
  "map (\<lambda>(p, f). g p) (concat (map (\<lambda>f. map (\<lambda>p. (p, f)) (pts f)) fs))
     = concat (map (\<lambda>f. map g (pts f)) fs)"
  by (induction fs) (simp_all add: comp_def)

lemma map_both_tagged:
  "map (\<lambda>(p, f). h p f) (concat (map (\<lambda>f. map (\<lambda>p. (p, f)) (pts f)) fs))
     = concat (map (\<lambda>f. map (\<lambda>p. h p f) (pts f)) fs)"
  by (induction fs) (simp_all add: comp_def)

text \<open>
  Where the alignment holds.  After a cubic or a cylindric run that returns without
  error, from any state of the object, the mesh is replaced, the UV map has one entry per
  point of the new mesh, and there is a list of local points such that the mesh point at
  an index is the placed local point at that index and the UV entry is the projection of
  that local point (by the unfolding of a cube face, or by the cylinder formula with one
  radius or the planar one).
\<close>

lemma rebuilt_mesh_alignment:
  assumes run: "compute_uvmap (Some k) self = (None, self')" and k: "k \<noteq> ''Spherical''"
  shows "(\<exists>uv. uvmap self' = Some uv \<and> length uv = length (Points (mesh self')))
         \<and> (k = ''Cubic'' \<longrightarrow>
              (\<exists>P locals. originalplacement self = Some P
                 \<and> Points (mesh self') = map (\<lambda>(p, f). mat_apply (PMatrix P) p) locals
                 \<and> uvmap self' = Some (map (\<lambda>(p, f). compute_uv_from_unitcube (vdiv p 1000) f) locals)))
         \<and> (k = ''Cylindric'' \<longrightarrow>
              (\<exists>P locals r. originalplacement self = Some P
                 \<and> Points (mesh self') = map (\<lambda>(p, regular). mat_apply (PMatrix P) p) locals
                 \<and> uvmap self' = Some (map (\<lambda>(p, regular).
                        if regular then Vector2d (atan2 (vx p) (vy p) * r * (1 / 1000)) (vz p * (1 / 1000))
                        else Vector2d (vx p / 1000) (vy p / 1000)) locals)))"
proof -
  let ?common = "\<exists>uv. uvmap self' = Some uv \<and> length uv = length (Points (mesh self'))"
  let ?cubic = "\<exists>P locals. originalplacement self = Some P
                 \<and> Points (mesh self') = map (\<lambda>(p, f). mat_apply (PMatrix P) p) locals
                 \<and> uvmap self' = Some (map (\<lambda>(p, f). compute_uv_from_unitcube (vdiv p 1000) f) locals)"
  let ?cylindric = "\<exists>P locals r. originalplacement self = Some P
                 \<and> Points (mesh self') = map (\<lambda>(p, regular). mat_apply (PMatrix P) p) locals
                 \<and> uvmap self' = Some (map (\<lambda>(p, regular).
                        if regular then Vector2d (atan2 (vx p) (vy p) * r * (1 / 1000)) (vz p * (1 / 1000))
                        else Vector2d (vx p / 1000) (vy p / 1000)) locals)"
  have kinds: "k = ''Cubic'' \<or> k = ''Cylindric''"
    using run k by (auto simp add: compute_uvmap_def split: if_splits)
  have cubic: "?cubic \<and> ?common" if kc: "k = ''Cubic''"
  proof -
    from run kc have c: "compute_uvmap_cube self = (None, self')"
      by (simp add: compute_uvmap_def)
    then have "fst (compute_uvmap_cube self) = None" by simp
    from compute_uvmap_cube_success [OF this]
    obtain om P where om: "originalmesh self = Some om" and P: "originalplacement self = Some P"
      by blast
    let ?locals = "concat (map (\<lambda>f. map (\<lambda>p. (p, f)) (cube_face_points om f))
                     UnitCubeFaceEnum_members)"
    from compute_uvmap_cube_result [OF om P] c
    obtain mesh_new where
      self': "self' = self\<lparr>mesh := mesh_new,
                 uvmap := Some (concat (map (\<lambda>f. map (\<lambda>p. compute_uv_from_unitcube (vdiv p 1000) f)
                                                   (cube_face_points om f)) UnitCubeFaceEnum_members))\<rparr>"
      and pts: "Points mesh_new =
                  concat (map (\<lambda>f. map (mat_apply (PMatrix P)) (cube_face_points om f))
                           UnitCubeFaceEnum_members)"
      by auto
    have m: "Points (mesh self') = map (\<lambda>(p, f). mat_apply (PMatrix P) p) ?locals"
      by (simp only: map_fst_tagged) (simp add: self' pts)
    have u: "uvmap self' = Some (map (\<lambda>(p, f). compute_uv_from_unitcube (vdiv p 1000) f) ?locals)"
      by (simp only: map_both_tagged) (simp add: self')
    from m u have "?common" by simp
    moreover from P m u have "?cubic" by blast
    ultimately show ?thesis by blast
  qed
  have cylindric: "?cylindric \<and> ?common" if kc: "k = ''Cylindric''"
  proof -
    from run kc have c: "compute_uvmap_cylinder self = (None, self')"
      by (simp add: compute_uvmap_def)
    then have "fst (compute_uvmap_cylinder self) = None" by simp
    from compute_uvmap_cylinder_success [OF this]
    obtain om P where om: "originalmesh self = Some om" and P: "originalplacement self = Some P"
      and nd: "\<forall>f \<in> set (Facets om). nondegenerate f" and ne: "regular_points om \<noteq> []"
      by blast
    let ?locals = "map (\<lambda>p. (p, True)) (regular_points om)
                     @ map (\<lambda>p. (p, False)) (axis_normal_points om)"
    from compute_uvmap_cylinder_result [OF om P nd ne] c
    obtain mesh_new where
      self': "self' = self\<lparr>mesh := mesh_new,
                uvmap := Some (map (\<lambda>p. Vector2d (atan2 (vx p) (vy p) * avg_radius (regular_points om) * (1 / 1000))
                                                 (vz p * (1 / 1000))) (regular_points om)
                               @ map (\<lambda>p. Vector2d (vx p / 1000) (vy p / 1000)) (axis_normal_points om))\<rparr>"
      and pts: "Points mesh_new = map (mat_apply (PMatrix P)) (regular_points om)
                                 @ map (mat_apply (PMatrix P)) (axis_normal_points om)"
      by auto
    have m: "Points (mesh self') = map (\<lambda>(p, regular). mat_apply (PMatrix P) p) ?locals"
      by (simp add: self' pts comp_def)
    have u: "uvmap self' = Some (map (\<lambda>(p, regular).
                        if regular
                        then Vector2d (atan2 (vx p) (vy p) * avg_radius (regular_points om) * (1 / 1000))
                                      (vz p * (1 / 1000))
                        else Vector2d (vx p / 1000) (vy p / 1000)) ?locals)"
      by (simp add: self' comp_def)
    from m u have "?common" by simp
    moreover from P m u have "?cylindric" by blast
    ultimately show ?thesis by blast
  qed
  from kinds cubic cylindric show ?thesis by blast
qed

text \<open>
  After a spherical run that returns without error the original mesh is set, the owned
  mesh is the one before the run, and the UV map has one entry per point of the original
  mesh, in its order, the spherical projection of that point.  When the original mesh is
  the owned mesh moved by the inverse placement, as the constructor leaves it, the UV map
  has one entry per point of the owned mesh, for the unplaced image of that point.
\<close>

lemma spherical_entries:
  assumes run: "compute_uvmap (Some ''Spherical'') self = (None, self')"
  shows "\<exists>om. originalmesh self = Some om \<and> mesh self' = mesh self
           \<and> uvmap self' = Some (map (\<lambda>p. sphere_projection (vsub p (compute_barycenter (Points om))))
                                  (Points om))"
proof -
  from run have c: "compute_uvmap_sphere self = (None, self')"
    by (simp add: compute_uvmap_def)
  then obtain om where om: "originalmesh self = Some om"
    by (cases "originalmesh self") (simp_all add: compute_uvmap_sphere_def)
  from compute_uvmap_sphere_success [OF c om] om show ?thesis
    by simp
qed

lemma spherical_alignment_in_step:
  assumes run: "compute_uvmap (Some ''Spherical'') self = (None, self')"
    and step: "originalmesh self = Some (transform (PInverseMatrix P) (mesh self))"
  shows "uvmap self' =
           Some (map (\<lambda>p. sphere_projection
                     (vsub p (compute_barycenter (map (mat_apply (PInverseMatrix P)) (Points (mesh self')))))
                     ) (map (mat_apply (PInverseMatrix P)) (Points (mesh self'))))
         \<and> map_option length (uvmap self') = Some (length (Points (mesh self')))"
proof -
  from spherical_entries [OF run] step
  have keep: "mesh self' = mesh self"
    and u: "uvmap self' = Some (map (\<lambda>p. sphere_projection
              (vsub p (compute_barycenter (Points (transform (PInverseMatrix P) (mesh self))))))
              (Points (transform (PInverseMatrix P) (mesh self))))"
    by auto
  show ?thesis
    by (simp add: u keep Points_transform)
qed

text \<open>
  C1.  The claim asks, after every run of \<open>compute_uvmap\<close> that returns without error,
  for a UV map with one entry per point of the owned mesh, entry and point being aligned
  by index.  The cubic and the cylindric strategies give it by replacing the mesh and the
  UV map together.  The spherical strategy computes the UV map from the original mesh
  and does not touch the owned mesh, so it fails on an object whose mesh an earlier run
  has replaced.  On the two-triangle object, constructed without placement, a cubic run
  returns with a mesh of six points and a UV map of six entries; a spherical run after
  it returns without error with a UV map of four entries, one per point of the original
  mesh, while the owned mesh still has its six points.
\<close>

theorem spherical_after_cubic_misaligned:
  "RenderingMesh_init (Some two_faces) None null_placement
     = Inr (constructed two_faces null_placement)
   \<and> compute_uvmap (Some ''Cubic'') (constructed two_faces null_placement)
       = (None, two_faces_after_cubic)
   \<and> length (Points (mesh two_faces_after_cubic)) = 6
   \<and> map_option length (uvmap two_faces_after_cubic) = Some 6
   \<and> fst (compute_uvmap (Some ''Spherical'') two_faces_after_cubic) = None
   \<and> map_option length (uvmap (snd (compute_uvmap (Some ''Spherical'') two_faces_after_cubic)))
       = Some 4
   \<and> length (Points (mesh (snd (compute_uvmap (Some ''Spherical'') two_faces_after_cubic)))) = 6"
proof -
  have init: "RenderingMesh_init (Some two_faces) None null_placement
     = Inr (constructed two_faces null_placement)"
    by (rule constructed_init) (simp add: two_faces_def)
  have after: "two_faces_after_cubic = (constructed two_faces null_placement)
        \<lparr>mesh := \<lparr>Points = [Vector 0 0 0, Vector 0 0 1, Vector 1 0 0,
                            Vector 0 0 0, Vector 1 0 0, Vector 0 1 0],
                  FacetIndices = [(0, 1, 2), (3, 4, 5)], MeshPlacement = null_placement\<rparr>,
          uvmap := Some [Vector2d 0 0, Vector2d 0 (1 / 1000), Vector2d (- (1 / 1000)) 0,
                         Vector2d 0 0, Vector2d (1 / 1000) 0, Vector2d 0 (1 / 1000)]\<rparr>"
    by (simp add: two_faces_after_cubic_def two_faces_null_cubic)
  have cubic: "compute_uvmap (Some ''Cubic'') (constructed two_faces null_placement)
       = (None, two_faces_after_cubic)"
    by (simp add: after two_faces_null_cubic)
  have c1: "length (Points (mesh two_faces_after_cubic)) = 6"
    and c2: "map_option length (uvmap two_faces_after_cubic) = Some 6"
    by (simp_all add: after)
  have om: "originalmesh two_faces_after_cubic = Some two_faces"
    by (simp add: after constructed_null_placement)
  have nz: "\<forall>p \<in> set (Points two_faces).
              vlength (vsub p (compute_barycenter (Points two_faces))) \<noteq> 0"
    unfolding two_faces_barycenter by (simp add: two_faces_def vsub_def vlength_def)
  have sphere: "compute_uvmap (Some ''Spherical'') two_faces_after_cubic =
      (None, two_faces_after_cubic
         \<lparr>uvmap := Some (map (\<lambda>p. sphere_projection (vsub p (compute_barycenter (Points two_faces))))
                           (Points two_faces))\<rparr>)"
    using nz by (simp add: compute_uvmap_def compute_uvmap_sphere_result [OF om])
  have s1: "fst (compute_uvmap (Some ''Spherical'') two_faces_after_cubic) = None"
    by (simp add: sphere)
  have s2: "map_option length
              (uvmap (snd (compute_uvmap (Some ''Spherical'') two_faces_after_cubic))) = Some 4"
    by (simp add: sphere) (simp add: two_faces_def)
  have s3: "length (Points (mesh (snd (compute_uvmap (Some ''Spherical'') two_faces_after_cubic)))) = 6"
    by (simp add: sphere) (simp add: after)
  from init cubic c1 c2 s1 s2 s3 show ?thesis by blast
qed

end
